theory Spec2Isabelle
  imports Main
begin

section \<open>Strings\<close>

text \<open>
  Source strings are sequences of UTF-16 code units; the model keeps the code units below
  256 (\<open>char\<close>), on which the character classes of the regular expressions and of
  \<open>trim\<close> are the ones written out below.
\<close>

definition isSpace :: "char \<Rightarrow> bool" where
  "isSpace c = (c = CHR 0x09 \<or> c = CHR 0x0A \<or> c = CHR 0x0B \<or> c = CHR 0x0C \<or> c = CHR 0x0D
                \<or> c = CHR 0x20 \<or> c = CHR 0xA0)"

definition isLineTerminator :: "char \<Rightarrow> bool" where
  "isLineTerminator c = (c = CHR 0x0A \<or> c = CHR 0x0D)"

definition isDigit :: "char \<Rightarrow> bool" where
  "isDigit c = (48 \<le> (of_char c :: nat) \<and> (of_char c :: nat) \<le> 57)"

definition isWord :: "char \<Rightarrow> bool" where
  "isWord c = (isDigit c \<or> (65 \<le> (of_char c :: nat) \<and> (of_char c :: nat) \<le> 90)
               \<or> (97 \<le> (of_char c :: nat) \<and> (of_char c :: nat) \<le> 122) \<or> c = CHR ''_'')"

definition digitVal :: "char \<Rightarrow> nat" where
  "digitVal c = (of_char c :: nat) - 48"

definition parseNat :: "string \<Rightarrow> nat" where
  "parseNat ds = foldl (\<lambda>n c. 10 * n + digitVal c) 0 ds"

definition digitChar :: "nat \<Rightarrow> char" where
  "digitChar n = char_of (48 + n)"

fun showNat :: "nat \<Rightarrow> string" where
  "showNat n = (if n < 10 then [digitChar n] else showNat (n div 10) @ [digitChar (n mod 10)])"

declare showNat.simps [simp del]

definition showInt :: "int \<Rightarrow> string" where
  "showInt i = (if i < 0 then CHR ''-'' # showNat (nat (- i)) else showNat (nat i))"

definition trim :: "string \<Rightarrow> string" where
  "trim s = rev (dropWhile isSpace (rev (dropWhile isSpace s)))"

definition startsWith :: "string \<Rightarrow> string \<Rightarrow> bool" where
  "startsWith s p = (take (length p) s = p)"

definition endsWith :: "string \<Rightarrow> string \<Rightarrow> bool" where
  "endsWith s p = (length p \<le> length s \<and> drop (length s - length p) s = p)"

text \<open>\<open>s.split(c)\<close> for a one-character separator: never empty, \<open>"".split(c) = [""]\<close>.\<close>

fun splitOn :: "char \<Rightarrow> string \<Rightarrow> string list" where
  "splitOn c [] = [[]]"
| "splitOn c (x # xs) =
     (if x = c then [] # splitOn c xs
      else (case splitOn c xs of [] \<Rightarrow> [[x]] | p # ps \<Rightarrow> (x # p) # ps))"

text \<open>\<open>s.split(/\s+/)\<close>: every maximal run of white space is one separator.\<close>

function splitSpaces :: "string \<Rightarrow> string list" where
  "splitSpaces [] = [[]]"
| "splitSpaces (x # xs) =
     (if isSpace x then [] # splitSpaces (dropWhile isSpace xs)
      else (case splitSpaces xs of [] \<Rightarrow> [[x]] | p # ps \<Rightarrow> (x # p) # ps))"
  by pat_completeness auto
termination
  by (relation "measure length") (auto simp: length_dropWhile_le less_Suc_eq_le)

text \<open>\<open>s.indexOf(p)\<close>: the first position where \<open>p\<close> occurs, \<open>None\<close> for \<open>-1\<close>.\<close>

fun indexOf :: "string \<Rightarrow> string \<Rightarrow> nat option" where
  "indexOf [] p = (if p = [] then Some 0 else None)"
| "indexOf (x # xs) p =
     (if startsWith (x # xs) p then Some 0 else map_option Suc (indexOf xs p))"

definition strIncludes :: "string \<Rightarrow> string \<Rightarrow> bool" where
  "strIncludes s p = (indexOf s p \<noteq> None)"

text \<open>\<open>s.slice(a, -1)\<close> on strings.\<close>

definition sliceInner :: "nat \<Rightarrow> string \<Rightarrow> string" where
  "sliceInner a s = drop a (butlast s)"

fun joinWith :: "string \<Rightarrow> string list \<Rightarrow> string" where
  "joinWith sep [] = []"
| "joinWith sep [p] = p"
| "joinWith sep (p # q # ps) = p @ sep @ joinWith sep (q # ps)"

definition toLowerCase :: "string \<Rightarrow> string" where
  "toLowerCase s =
     map (\<lambda>c. if (65 \<le> (of_char c :: nat) \<and> (of_char c :: nat) \<le> 90)
                  \<or> (192 \<le> (of_char c :: nat) \<and> (of_char c :: nat) \<le> 222
                      \<and> (of_char c :: nat) \<noteq> 215)
               then char_of ((of_char c :: nat) + 32) else c) s"

section \<open>Values\<close>

text \<open>
  A JavaScript number is modelled by an integer or \<open>NaN\<close> (\<open>Fin i\<close> stands for a
  number of the source only while \<open>i\<close> is an integer that a double holds exactly). A
  value is JSON data, \<open>undefined\<close>, or an object of the host that is not JSON data: a
  function or a prototype object, reached through the prototype chain or made by user code.
  An object is the list of its own properties in property order, an array the list of its
  elements. \<open>JHost name callable json\<close> is a host object by the name the host knows
  it under, with whether it is callable and with its JSON text (\<open>None\<close> when
  \<open>JSON.stringify\<close> gives \<open>undefined\<close> for it, as for every function).
\<close>

datatype num = NaN | Fin int

datatype jsval =
    JUndef
  | JNull
  | JBool bool
  | JNum num
  | JStr string
  | JArr "jsval list"
  | JObj "(string \<times> jsval) list"
  | JHost string bool "string option"

abbreviation JInt :: "int \<Rightarrow> jsval" where
  "JInt n \<equiv> JNum (Fin n)"

text \<open>What is thrown: an error object of one of three kinds with its message, or any
  other value that user code throws.\<close>

datatype error = Error string | TypeError string | SyntaxError string | Thrown jsval

text \<open>
  What the functions below use of the host and do not define themselves: the JSON reader;
  the reader of numeric literals behind \<open>Number(string)\<close>; the regular expression
  engine; the locale-aware comparison; the members that arrays, strings, numbers and
  booleans inherit from their prototypes (by \<open>Array\<close>, \<open>String\<close>, \<open>Number\<close>,
  \<open>Boolean\<close> and the member's name, \<open>undefined\<close> when there is none); the read of
  a property of a host object, its conversions to a string and to a number, and the call
  of a host function as a method of a value; and the evaluation of program text.

  \<open>callFunction\<close> is \<open>new Function(...)(data)\<close>: the user's code receives the
  object itself and can write to it before it returns or throws, so the call gives back
  the argument as the code left it, together with the outcome. User code is taken to act
  on nothing else of the host, and what it returns, throws or leaves behind is taken to
  be a value of this model (no cyclic object, no accessor property).
\<close>

record host =
  JSON_parse :: "string \<Rightarrow> error + jsval"
  stringToNumber :: "string \<Rightarrow> num"
  RegExp_new :: "string \<Rightarrow> error + (string \<Rightarrow> bool)"
  localeCompareNumeric :: "string \<Rightarrow> string \<Rightarrow> int"
  callFunction :: "string \<Rightarrow> jsval \<Rightarrow> jsval \<times> (error + jsval)"
  inheritedMember :: "string \<Rightarrow> string \<Rightarrow> jsval"
  hostGet :: "string \<Rightarrow> string \<Rightarrow> error + jsval"
  hostToString :: "string \<Rightarrow> error + string"
  hostToNumber :: "string \<Rightarrow> error + num"
  callMethod :: "string \<Rightarrow> jsval \<Rightarrow> error + jsval"

definition bindE :: "error + 'a \<Rightarrow> ('a \<Rightarrow> error + 'b) \<Rightarrow> error + 'b" where
  "bindE m f = (case m of Inl e \<Rightarrow> Inl e | Inr v \<Rightarrow> f v)"

fun mapE :: "('a \<Rightarrow> error + 'b) \<Rightarrow> 'a list \<Rightarrow> error + 'b list" where
  "mapE f [] = Inr []"
| "mapE f (x # xs) =
     (case f x of Inl e \<Rightarrow> Inl e
      | Inr y \<Rightarrow> (case mapE f xs of Inl e \<Rightarrow> Inl e | Inr ys \<Rightarrow> Inr (y # ys)))"

fun filterE :: "('a \<Rightarrow> error + bool) \<Rightarrow> 'a list \<Rightarrow> error + 'a list" where
  "filterE f [] = Inr []"
| "filterE f (x # xs) =
     (case f x of Inl e \<Rightarrow> Inl e
      | Inr b \<Rightarrow> (case filterE f xs of Inl e \<Rightarrow> Inl e
                  | Inr ys \<Rightarrow> Inr (if b then x # ys else ys)))"

subsection \<open>Conversions\<close>

definition isPrimitive :: "jsval \<Rightarrow> bool" where
  "isPrimitive v =
     (case v of JArr xs \<Rightarrow> False | JObj fs \<Rightarrow> False | JHost n c j \<Rightarrow> False | _ \<Rightarrow> True)"

text \<open>
  The conversion of an object to a primitive: its methods \<open>toString\<close> and
  \<open>valueOf\<close> are tried in the order given. An own property of that name is what is
  tried, and it can be called only when it is a callable host object (JSON data is never
  callable); without an own property, the inherited \<open>toString\<close> gives
  \<open>[object Object]\<close> and the inherited \<open>valueOf\<close> gives the object itself, which
  is no primitive. When neither method gives a primitive, a \<open>TypeError\<close> is raised:
  so it is for every object with an own \<open>toString\<close> property that is JSON data.
\<close>

definition tryMethod :: "host \<Rightarrow> jsval \<Rightarrow> jsval \<Rightarrow> error + jsval option" where
  "tryMethod h v m =
     (case m of
        JHost n c j \<Rightarrow>
          (if c then bindE (callMethod h n v) (\<lambda>r. Inr (if isPrimitive r then Some r else None))
           else Inr None)
      | _ \<Rightarrow> Inr None)"

fun ordinaryToPrimitive :: "host \<Rightarrow> (string \<times> jsval) list \<Rightarrow> string list \<Rightarrow> error + jsval" where
  "ordinaryToPrimitive h fs [] = Inl (TypeError ''Cannot convert object to primitive value'')"
| "ordinaryToPrimitive h fs (name # names) =
     (case map_of fs name of
        None \<Rightarrow>
          (if name = ''toString'' then Inr (JStr ''[object Object]'')
           else ordinaryToPrimitive h fs names)
      | Some m \<Rightarrow>
          bindE (tryMethod h (JObj fs) m)
            (\<lambda>r. case r of Some p \<Rightarrow> Inr p | None \<Rightarrow> ordinaryToPrimitive h fs names))"

text \<open>\<open>String(v)\<close> of a primitive.\<close>

fun primitiveToString :: "jsval \<Rightarrow> string" where
  "primitiveToString JUndef = ''undefined''"
| "primitiveToString JNull = ''null''"
| "primitiveToString (JBool b) = (if b then ''true'' else ''false'')"
| "primitiveToString (JNum NaN) = ''NaN''"
| "primitiveToString (JNum (Fin i)) = showInt i"
| "primitiveToString (JStr s) = s"
| "primitiveToString v = []"

text \<open>\<open>String(v)\<close>; an array joins its elements with a comma, \<open>null\<close> and
  \<open>undefined\<close> elements giving the empty text.\<close>

fun toString :: "host \<Rightarrow> jsval \<Rightarrow> error + string"
  and joinElems :: "host \<Rightarrow> jsval list \<Rightarrow> error + string" where
  "toString h JUndef = Inr ''undefined''"
| "toString h JNull = Inr ''null''"
| "toString h (JBool b) = Inr (if b then ''true'' else ''false'')"
| "toString h (JNum n) = Inr (primitiveToString (JNum n))"
| "toString h (JStr s) = Inr s"
| "toString h (JArr xs) = joinElems h xs"
| "toString h (JObj fs) =
     bindE (ordinaryToPrimitive h fs [''toString'', ''valueOf''])
       (\<lambda>p. Inr (primitiveToString p))"
| "toString h (JHost n c j) = hostToString h n"
| "joinElems h [] = Inr []"
| "joinElems h (x # xs) =
     bindE (if x = JUndef \<or> x = JNull then Inr [] else toString h x)
       (\<lambda>t. if xs = [] then Inr t else bindE (joinElems h xs) (\<lambda>r. Inr (t @ '','' @ r)))"

text \<open>\<open>Number(v)\<close>.\<close>

fun primitiveToNumber :: "host \<Rightarrow> jsval \<Rightarrow> num" where
  "primitiveToNumber h JNull = Fin 0"
| "primitiveToNumber h (JBool b) = Fin (if b then 1 else 0)"
| "primitiveToNumber h (JNum n) = n"
| "primitiveToNumber h (JStr s) = stringToNumber h s"
| "primitiveToNumber h v = NaN"

fun toNumber :: "host \<Rightarrow> jsval \<Rightarrow> error + num" where
  "toNumber h (JArr xs) = bindE (toString h (JArr xs)) (\<lambda>t. Inr (stringToNumber h t))"
| "toNumber h (JObj fs) =
     bindE (ordinaryToPrimitive h fs [''valueOf'', ''toString''])
       (\<lambda>p. Inr (primitiveToNumber h p))"
| "toNumber h (JHost n c j) = hostToNumber h n"
| "toNumber h v = Inr (primitiveToNumber h v)"

text \<open>\<open>String(err)\<close>.\<close>

definition errorLine :: "string \<Rightarrow> string \<Rightarrow> string" where
  "errorLine name m = (if m = [] then name else name @ '': '' @ m)"

fun errorToString :: "host \<Rightarrow> error \<Rightarrow> error + string" where
  "errorToString h (Error m) = Inr (errorLine ''Error'' m)"
| "errorToString h (TypeError m) = Inr (errorLine ''TypeError'' m)"
| "errorToString h (SyntaxError m) = Inr (errorLine ''SyntaxError'' m)"
| "errorToString h (Thrown v) = toString h v"

fun numLess :: "num \<Rightarrow> num \<Rightarrow> bool" where
  "numLess (Fin a) (Fin b) = (a < b)"
| "numLess _ _ = False"

fun numLessEq :: "num \<Rightarrow> num \<Rightarrow> bool" where
  "numLessEq (Fin a) (Fin b) = (a \<le> b)"
| "numLessEq _ _ = False"

fun numAdd :: "num \<Rightarrow> num \<Rightarrow> num" where
  "numAdd (Fin a) (Fin b) = Fin (a + b)"
| "numAdd _ _ = NaN"

text \<open>\<open>!!v\<close>.\<close>

fun truthy :: "jsval \<Rightarrow> bool" where
  "truthy JUndef = False"
| "truthy JNull = False"
| "truthy (JBool b) = b"
| "truthy (JNum NaN) = False"
| "truthy (JNum (Fin i)) = (i \<noteq> 0)"
| "truthy (JStr s) = (s \<noteq> [])"
| "truthy (JArr xs) = True"
| "truthy (JObj fs) = True"
| "truthy (JHost n c j) = True"

text \<open>
  \<open>a === b\<close>, where an array or object of the data is never the same object as the
  other operand: primitives compare by value (\<open>NaN\<close> differs from itself), arrays
  and objects are distinct references, host objects are the same when they have the same
  name.
\<close>

fun strictEq :: "jsval \<Rightarrow> jsval \<Rightarrow> bool" where
  "strictEq JUndef JUndef = True"
| "strictEq JNull JNull = True"
| "strictEq (JBool a) (JBool b) = (a = b)"
| "strictEq (JNum (Fin a)) (JNum (Fin b)) = (a = b)"
| "strictEq (JStr a) (JStr b) = (a = b)"
| "strictEq (JHost a c j) (JHost b c' j') = (a = b)"
| "strictEq _ _ = False"

text \<open>\<open>typeof v === 'object' && v !== null\<close>, and \<open>Array.isArray(v)\<close>.\<close>

definition isObjectLike :: "jsval \<Rightarrow> bool" where
  "isObjectLike v =
     (case v of JArr xs \<Rightarrow> True | JObj fs \<Rightarrow> True | JHost n c j \<Rightarrow> \<not> c | _ \<Rightarrow> False)"

definition isArray :: "jsval \<Rightarrow> bool" where
  "isArray v = (case v of JArr xs \<Rightarrow> True | _ \<Rightarrow> False)"

definition isHost :: "jsval \<Rightarrow> bool" where
  "isHost v = (case v of JHost n c j \<Rightarrow> True | _ \<Rightarrow> False)"

subsection \<open>Properties\<close>

text \<open>An array index as a property key: the canonical decimal text of a number below
  \<open>2^32 - 1\<close>.\<close>

definition isArrayIndex :: "string \<Rightarrow> bool" where
  "isArrayIndex k = (k \<noteq> [] \<and> list_all isDigit k \<and> (k = ''0'' \<or> hd k \<noteq> CHR ''0'')
                     \<and> parseNat k < 4294967295)"

definition arrayAt :: "jsval list \<Rightarrow> nat \<Rightarrow> jsval" where
  "arrayAt xs n = (if n < length xs then xs ! n else JUndef)"

text \<open>
  What every object inherits from \<open>Object.prototype\<close>: the twelve names that the
  language gives it (ECMA-262 with its annex for web browsers). \<open>constructor\<close> is the
  function \<open>Object\<close>, \<open>__proto__\<close> the prototype object itself, the others are
  functions.
\<close>

definition objectPrototypeNames :: "string list" where
  "objectPrototypeNames =
     [''constructor'', ''__defineGetter__'', ''__defineSetter__'', ''hasOwnProperty'',
      ''__lookupGetter__'', ''__lookupSetter__'', ''isPrototypeOf'', ''propertyIsEnumerable'',
      ''toString'', ''valueOf'', ''__proto__'', ''toLocaleString'']"

definition objectInherited :: "string \<Rightarrow> jsval" where
  "objectInherited k =
     (if k = ''constructor'' then JHost ''Object'' True None
      else if k = ''__proto__'' then JHost ''Object.prototype'' False (Some ''{}'')
      else if k \<in> set objectPrototypeNames then JHost (''Object.prototype.'' @ k) True None
      else JUndef)"

text \<open>
  \<open>o[k]\<close>: reading a property of \<open>null\<close> or \<open>undefined\<close> raises a
  \<open>TypeError\<close>. An own property is read first, then the prototype chain; a property
  found in neither reads as \<open>undefined\<close>. No prototype has an array index as a member.
  Reading a member inherited by JSON data raises nothing; a read on a host object is the
  host's and can raise.
\<close>

fun getProp :: "host \<Rightarrow> jsval \<Rightarrow> string \<Rightarrow> error + jsval" where
  "getProp h JUndef k = Inl (TypeError ''Cannot read properties of undefined'')"
| "getProp h JNull k = Inl (TypeError ''Cannot read properties of null'')"
| "getProp h (JObj fs) k = Inr (case map_of fs k of None \<Rightarrow> objectInherited k | Some v \<Rightarrow> v)"
| "getProp h (JArr xs) k =
     Inr (if k = ''length'' then JInt (int (length xs))
          else if isArrayIndex k then arrayAt xs (parseNat k)
          else inheritedMember h ''Array'' k)"
| "getProp h (JStr s) k =
     Inr (if k = ''length'' then JInt (int (length s))
          else if isArrayIndex k then (if parseNat k < length s then JStr [s ! parseNat k] else JUndef)
          else inheritedMember h ''String'' k)"
| "getProp h (JBool b) k = Inr (if isArrayIndex k then JUndef else inheritedMember h ''Boolean'' k)"
| "getProp h (JNum n) k = Inr (if isArrayIndex k then JUndef else inheritedMember h ''Number'' k)"
| "getProp h (JHost n c j) k = hostGet h n k"

text \<open>\<open>k in o\<close> for an array or an object \<open>o\<close>.\<close>

fun hasProp :: "host \<Rightarrow> jsval \<Rightarrow> string \<Rightarrow> bool" where
  "hasProp h (JObj fs) k = (k \<in> set (map fst fs) \<or> k \<in> set objectPrototypeNames)"
| "hasProp h (JArr xs) k =
     (k = ''length'' \<or> (isArrayIndex k \<and> parseNat k < length xs)
      \<or> (\<not> isArrayIndex k \<and> inheritedMember h ''Array'' k \<noteq> JUndef))"
| "hasProp h (JHost n c j) k = (hostGet h n k \<noteq> Inr JUndef)"
| "hasProp h v k = False"

text \<open>\<open>Object.entries(v)\<close>, \<open>Object.keys(v)\<close> and \<open>Object.values(v)\<close>: the own
  enumerable properties; the host objects met here have none.\<close>

fun objectEntries :: "jsval \<Rightarrow> error + (string \<times> jsval) list" where
  "objectEntries JUndef = Inl (TypeError ''Cannot convert undefined or null to object'')"
| "objectEntries JNull = Inl (TypeError ''Cannot convert undefined or null to object'')"
| "objectEntries (JObj fs) = Inr fs"
| "objectEntries (JArr xs) = Inr (zip (map showNat [0 ..< length xs]) xs)"
| "objectEntries (JStr s) = Inr (zip (map showNat [0 ..< length s]) (map (\<lambda>c. JStr [c]) s))"
| "objectEntries (JBool b) = Inr []"
| "objectEntries (JNum n) = Inr []"
| "objectEntries (JHost n c j) = Inr []"

definition objectKeys :: "jsval \<Rightarrow> error + jsval list" where
  "objectKeys v = bindE (objectEntries v) (\<lambda>es. Inr (map (\<lambda>(k, x). JStr k) es))"

definition objectValues :: "jsval \<Rightarrow> error + jsval list" where
  "objectValues v = bindE (objectEntries v) (\<lambda>es. Inr (map snd es))"

text \<open>
  \<open>r[k] = v\<close> on an object built by the program: an existing property keeps its place,
  a new array index goes among the indices in ascending order, any other new key goes
  last. The key \<open>__proto__\<close> is no new property: the assignment goes to the setter
  inherited from \<open>Object.prototype\<close>, and the object keeps the own properties it has
  (the change of prototype that the setter makes is not followed).
\<close>

fun insertIndex :: "(string \<times> jsval) list \<Rightarrow> string \<Rightarrow> jsval \<Rightarrow> (string \<times> jsval) list" where
  "insertIndex [] k v = [(k, v)]"
| "insertIndex ((k', v') # fs) k v =
     (if isArrayIndex k' \<and> parseNat k' < parseNat k then (k', v') # insertIndex fs k v
      else (k, v) # (k', v') # fs)"

definition objSet :: "(string \<times> jsval) list \<Rightarrow> string \<Rightarrow> jsval \<Rightarrow> (string \<times> jsval) list" where
  "objSet fs k v =
     (if k \<in> set (map fst fs) then map (\<lambda>(k', v'). if k' = k then (k', v) else (k', v')) fs
      else if k = ''__proto__'' then fs
      else if isArrayIndex k then insertIndex fs k v
      else fs @ [(k, v)])"

subsection \<open>JSON text\<close>

definition hexDigit :: "nat \<Rightarrow> char" where
  "hexDigit n = ''0123456789abcdef'' ! n"

definition quoteChar :: "char \<Rightarrow> string" where
  "quoteChar c =
     (if c = CHR 0x22 then [CHR 0x5C, CHR 0x22]
      else if c = CHR 0x5C then [CHR 0x5C, CHR 0x5C]
      else if c = CHR 0x08 then [CHR 0x5C, CHR ''b'']
      else if c = CHR 0x0C then [CHR 0x5C, CHR ''f'']
      else if c = CHR 0x0A then [CHR 0x5C, CHR ''n'']
      else if c = CHR 0x0D then [CHR 0x5C, CHR ''r'']
      else if c = CHR 0x09 then [CHR 0x5C, CHR ''t'']
      else if (of_char c :: nat) < 32
        then [CHR 0x5C, CHR ''u'', CHR ''0'', CHR ''0'',
              hexDigit ((of_char c :: nat) div 16), hexDigit ((of_char c :: nat) mod 16)]
      else [c])"

definition quote :: "string \<Rightarrow> string" where
  "quote s = CHR 0x22 # concat (map quoteChar s) @ [CHR 0x22]"

text \<open>
  \<open>JSON.stringify(v, null, gap)\<close> at the indentation \<open>ind\<close>: \<open>None\<close> is the
  result \<open>undefined\<close>; an element without a text is written \<open>null\<close>, a property
  whose value has no text is left out, \<open>NaN\<close> is written \<open>null\<close>; a host
  object is written by the text it comes with.
\<close>

fun stringifyValue :: "string \<Rightarrow> string \<Rightarrow> jsval \<Rightarrow> string option"
  and stringifyElems :: "string \<Rightarrow> string \<Rightarrow> jsval list \<Rightarrow> string list"
  and stringifyProps :: "string \<Rightarrow> string \<Rightarrow> (string \<times> jsval) list \<Rightarrow> string list" where
  "stringifyValue gap ind JUndef = None"
| "stringifyValue gap ind JNull = Some ''null''"
| "stringifyValue gap ind (JBool b) = Some (if b then ''true'' else ''false'')"
| "stringifyValue gap ind (JNum NaN) = Some ''null''"
| "stringifyValue gap ind (JNum (Fin i)) = Some (showInt i)"
| "stringifyValue gap ind (JStr s) = Some (quote s)"
| "stringifyValue gap ind (JHost n c j) = j"
| "stringifyValue gap ind (JArr xs) =
     Some (if xs = [] then ''[]''
           else if gap = [] then ''['' @ joinWith '','' (stringifyElems gap (ind @ gap) xs) @ '']''
           else ''['' @ CHR 0x0A # (ind @ gap)
                @ joinWith ('','' @ CHR 0x0A # (ind @ gap)) (stringifyElems gap (ind @ gap) xs)
                @ CHR 0x0A # ind @ '']'')"
| "stringifyValue gap ind (JObj fs) =
     Some (if stringifyProps gap (ind @ gap) fs = [] then ''{}''
           else if gap = [] then ''{'' @ joinWith '','' (stringifyProps gap (ind @ gap) fs) @ ''}''
           else ''{'' @ CHR 0x0A # (ind @ gap)
                @ joinWith ('','' @ CHR 0x0A # (ind @ gap)) (stringifyProps gap (ind @ gap) fs)
                @ CHR 0x0A # ind @ ''}'')"
| "stringifyElems gap ind [] = []"
| "stringifyElems gap ind (x # xs) =
     (case stringifyValue gap ind x of None \<Rightarrow> ''null'' | Some s \<Rightarrow> s)
       # stringifyElems gap ind xs"
| "stringifyProps gap ind [] = []"
| "stringifyProps gap ind ((k, v) # fs) =
     (case stringifyValue gap ind v of
        None \<Rightarrow> stringifyProps gap ind fs
      | Some s \<Rightarrow> (quote k @ '':'' @ (if gap = [] then [] else '' '') @ s)
                   # stringifyProps gap ind fs)"

text \<open>\<open>JSON.stringify(v)\<close> and \<open>JSON.stringify(v, null, 2)\<close>.\<close>

definition JSON_stringify :: "jsval \<Rightarrow> string option" where
  "JSON_stringify v = stringifyValue [] [] v"

definition JSON_stringify2 :: "jsval \<Rightarrow> string option" where
  "JSON_stringify2 v = stringifyValue ''  '' [] v"

section \<open>The path resolver\<close>

text \<open>The match of \<open>/^(\w+)\[(\d+)\]$/\<close>: the key and the digits.\<close>

definition arrMatch :: "string \<Rightarrow> (string \<times> string) option" where
  "arrMatch p =
     (let key = takeWhile isWord p; rest = dropWhile isWord p
      in if key \<noteq> [] \<and> 3 \<le> length rest \<and> hd rest = CHR ''['' \<and> last rest = CHR '']''
            \<and> list_all isDigit (butlast (tl rest))
         then Some (key, butlast (tl rest)) else None)"

fun getNestedLoop :: "host \<Rightarrow> jsval \<Rightarrow> string list \<Rightarrow> error + jsval" where
  "getNestedLoop h current [] = Inr current"
| "getNestedLoop h current (p # ps) =
     (if current = JNull \<or> current = JUndef then Inr JUndef
      else (case arrMatch p of
              Some (key, ds) \<Rightarrow>
                bindE (getProp h current key)
                  (\<lambda>c. getNestedLoop h (case c of JArr xs \<Rightarrow> arrayAt xs (parseNat ds) | _ \<Rightarrow> c) ps)
            | None \<Rightarrow> bindE (getProp h current p) (\<lambda>c. getNestedLoop h c ps)))"

definition getNestedValue :: "host \<Rightarrow> jsval \<Rightarrow> string \<Rightarrow> error + jsval" where
  "getNestedValue h obj path =
     (if path = [] then Inr obj else getNestedLoop h obj (splitOn CHR ''.'' path))"

section \<open>The workflow engine\<close>

text \<open>
  A step, an entry of the trace and the payload of the response. The elapsed times of the
  source's entries and responses are not modelled; a request handler returns the payload
  it sends, or the error that it lets escape.
\<close>

datatype stepType = KJq | KMap | KFilter | KSort | KPick | KOmit | KRename | KCustom

record workflowStep =
  step_id :: string
  step_name :: string
  step_type :: stepType
  config :: string
  enabled :: bool

record stepResult =
  stepId :: string
  stepOutput :: "string option"
  stepError :: "string option"

record workflowResult =
  stepResults :: "stepResult list"
  finalOutput :: "string option"

text \<open>\<open>s.replace(/^["']|["']$/g, '')\<close>.\<close>

definition isQuoteChar :: "char \<Rightarrow> bool" where
  "isQuoteChar c = (c = CHR 0x22 \<or> c = CHR 0x27)"

definition stripQuotes :: "string \<Rightarrow> string" where
  "stripQuotes s =
     (let s1 = (if s \<noteq> [] \<and> isQuoteChar (hd s) then tl s else s)
      in if s1 \<noteq> [] \<and> isQuoteChar (last s1) then butlast s1 else s1)"

fun findOp :: "string \<Rightarrow> string list \<Rightarrow> string \<times> string \<times> string" where
  "findOp expr [] = (expr, ''=='', ''true'')"
| "findOp expr (op # ops) =
     (case indexOf expr op of
        Some idx \<Rightarrow> (trim (take idx expr), op, stripQuotes (trim (drop (idx + length op) expr)))
      | None \<Rightarrow> findOp expr ops)"

definition filterOps :: "string list" where
  "filterOps = [''>='', ''<='', ''!='', ''=='', ''>'', ''<'', ''contains'']"

definition parseFilterExpression :: "string \<Rightarrow> string \<times> string \<times> string" where
  "parseFilterExpression expr = findOp expr filterOps"

text \<open>The \<open>switch (op)\<close> of the filter step; \<open>String(itemVal)\<close> and
  \<open>Number(itemVal)\<close> can raise.\<close>

definition filterTest :: "host \<Rightarrow> string \<Rightarrow> jsval \<Rightarrow> string \<Rightarrow> error + bool" where
  "filterTest h op itemVal val =
     (if op = ''=='' then bindE (toString h itemVal) (\<lambda>t. Inr (t = val))
      else if op = ''!='' then bindE (toString h itemVal) (\<lambda>t. Inr (t \<noteq> val))
      else if op = ''>''
        then bindE (toNumber h itemVal) (\<lambda>n. Inr (numLess (stringToNumber h val) n))
      else if op = ''<''
        then bindE (toNumber h itemVal) (\<lambda>n. Inr (numLess n (stringToNumber h val)))
      else if op = ''>=''
        then bindE (toNumber h itemVal) (\<lambda>n. Inr (numLessEq (stringToNumber h val) n))
      else if op = ''<=''
        then bindE (toNumber h itemVal) (\<lambda>n. Inr (numLessEq n (stringToNumber h val)))
      else if op = ''contains''
        then bindE (toString h itemVal) (\<lambda>t. Inr (strIncludes t val))
      else Inr True)"

text \<open>The \<open>[from, to]\<close> of one entry of a map step.\<close>

definition mapEntry :: "string \<Rightarrow> string \<times> string" where
  "mapEntry f =
     (if strIncludes f '':''
      then (case map trim (splitOn CHR '':'' f) of
              a # b # rest \<Rightarrow> (a, b)
            | _ \<Rightarrow> (f, f))
      else (f, f))"

fun mapFields :: "host \<Rightarrow> jsval \<Rightarrow> string list \<Rightarrow> (string \<times> jsval) list \<Rightarrow> error + jsval" where
  "mapFields h item [] result = Inr (JObj result)"
| "mapFields h item (f # fs) result =
     bindE (getNestedValue h item (fst (mapEntry f)))
       (\<lambda>v. mapFields h item fs (objSet result (snd (mapEntry f)) v))"

fun pickFields :: "host \<Rightarrow> jsval \<Rightarrow> string list \<Rightarrow> (string \<times> jsval) list \<Rightarrow> error + jsval" where
  "pickFields h item [] r = Inr (JObj r)"
| "pickFields h item (f # fs) r =
     bindE (getNestedValue h item f) (\<lambda>v. pickFields h item fs (objSet r f v))"

definition omitFields :: "string list \<Rightarrow> jsval \<Rightarrow> error + jsval" where
  "omitFields fieldList item =
     bindE (objectEntries item)
       (\<lambda>es. Inr (JObj (foldl (\<lambda>r (k, v). if k \<in> set fieldList then r else objSet r k v) [] es)))"

text \<open>
  The \<open>Map\<close> of a rename step: each entry is \<open>from\<close> with \<open>to\<close>, \<open>None\<close> where
  the entry has no second part; a later entry for the same key replaces an earlier one.
\<close>

definition renameMappings :: "string \<Rightarrow> (string \<times> string option) list" where
  "renameMappings cfg =
     map (\<lambda>s. case map trim (splitOn CHR '':'' (trim s)) of
                 [] \<Rightarrow> ([], None)
               | [a] \<Rightarrow> (a, None)
               | a # b # rest \<Rightarrow> (a, Some b))
         (splitOn CHR '','' cfg)"

text \<open>\<open>renameMap.get(k) || k\<close>.\<close>

definition renamedKey :: "(string \<times> string option) list \<Rightarrow> string \<Rightarrow> string" where
  "renamedKey mappings k =
     (case map_of (rev mappings) k of
        Some (Some t) \<Rightarrow> (if t = [] then k else t)
      | _ \<Rightarrow> k)"

definition renameFields :: "(string \<times> string option) list \<Rightarrow> jsval \<Rightarrow> error + jsval" where
  "renameFields mappings item =
     bindE (objectEntries item)
       (\<lambda>es. Inr (JObj (foldl (\<lambda>r (k, v). objSet r (renamedKey mappings k) v) [] es)))"

text \<open>\<open>Array.prototype.sort\<close> with a comparison function: stable.\<close>

fun insertBy :: "('a \<Rightarrow> 'a \<Rightarrow> bool) \<Rightarrow> 'a \<Rightarrow> 'a list \<Rightarrow> 'a list" where
  "insertBy le x [] = [x]"
| "insertBy le x (y # ys) = (if le x y then x # y # ys else y # insertBy le x ys)"

definition sortBy :: "('a \<Rightarrow> 'a \<Rightarrow> bool) \<Rightarrow> 'a list \<Rightarrow> 'a list" where
  "sortBy le xs = foldr (insertBy le) xs []"

text \<open>
  The sort step: \<open>undefined\<close> elements go last without being compared. The comparison
  function resolves the field of its two arguments and converts the values to strings;
  it is called only when there are two elements to compare, and then on every element.
  When several elements raise, the one met first in the array is taken to raise first.
\<close>

definition sortKey :: "host \<Rightarrow> string \<Rightarrow> jsval \<Rightarrow> error + string" where
  "sortKey h field item = bindE (getNestedValue h item field) (toString h)"

definition sortStep :: "host \<Rightarrow> string \<Rightarrow> jsval list \<Rightarrow> error + jsval" where
  "sortStep h cfg xs =
     (let parts = splitSpaces (trim cfg);
          field = hd parts;
          desc = (case parts of p0 # p1 # rest \<Rightarrow> toLowerCase p1 = ''desc'' | _ \<Rightarrow> False);
          defined = filter (\<lambda>x. x \<noteq> JUndef) xs;
          undefs = filter (\<lambda>x. x = JUndef) xs
      in if length defined < 2 then Inr (JArr (defined @ undefs))
         else bindE (mapE (sortKey h field) defined)
           (\<lambda>ks. Inr (JArr (map fst
                    (sortBy (\<lambda>a b. (let cmp = localeCompareNumeric h (snd a) (snd b)
                                    in (if desc then - cmp else cmp) \<le> 0))
                            (zip defined ks))
                  @ undefs))))"

text \<open>
  \<open>executeWorkflowStep\<close> gives the argument as the step leaves it, with the value
  returned or the error raised. Only a custom step, which hands the argument to user code,
  can leave it changed.
\<close>

fun executeWorkflowStep :: "host \<Rightarrow> jsval \<Rightarrow> workflowStep \<Rightarrow> jsval \<times> (error + jsval)" where
  "executeWorkflowStep h data step =
     (case step_type step of
        KMap \<Rightarrow>
          (data,
           case data of
             JArr xs \<Rightarrow>
               (let expr = trim (config step)
                in bindE (mapE (\<lambda>item.
                            if startsWith expr ''{'' \<and> endsWith expr ''}''
                            then mapFields h item (map trim (splitOn CHR '','' (sliceInner 1 expr))) []
                            else Inr item) xs)
                     (\<lambda>ys. Inr (JArr ys)))
           | _ \<Rightarrow> Inl (Error ''map requires an array''))
      | KFilter \<Rightarrow>
          (data,
           case data of
             JArr xs \<Rightarrow>
               (case parseFilterExpression (config step) of
                  (field, op, val) \<Rightarrow>
                    bindE (filterE (\<lambda>item. bindE (getNestedValue h item field)
                                             (\<lambda>itemVal. filterTest h op itemVal val)) xs)
                      (\<lambda>ys. Inr (JArr ys)))
           | _ \<Rightarrow> Inl (Error ''filter requires an array''))
      | KSort \<Rightarrow>
          (data,
           case data of
             JArr xs \<Rightarrow> sortStep h (config step) xs
           | _ \<Rightarrow> Inl (Error ''sort requires an array''))
      | KPick \<Rightarrow>
          (data,
           let fieldList = map trim (splitOn CHR '','' (config step))
           in case data of
                JArr xs \<Rightarrow> bindE (mapE (\<lambda>item. pickFields h item fieldList []) xs) (\<lambda>ys. Inr (JArr ys))
              | _ \<Rightarrow> pickFields h data fieldList [])
      | KOmit \<Rightarrow>
          (data,
           let fieldList = map trim (splitOn CHR '','' (config step))
           in case data of
                JArr xs \<Rightarrow> bindE (mapE (omitFields fieldList) xs) (\<lambda>ys. Inr (JArr ys))
              | _ \<Rightarrow> omitFields fieldList data)
      | KRename \<Rightarrow>
          (data,
           let mappings = renameMappings (config step)
           in case data of
                JArr xs \<Rightarrow> bindE (mapE (renameFields mappings) xs) (\<lambda>ys. Inr (JArr ys))
              | _ \<Rightarrow> renameFields mappings data)
      | KCustom \<Rightarrow> callFunction h (config step) data
      | KJq \<Rightarrow>
          (data,
           let path = trim (config step)
           in if startsWith path ''.'' then getNestedValue h data (drop 1 path) else Inr data))"

declare executeWorkflowStep.simps [simp del]

text \<open>
  The loop of \<open>handleRunWorkflow\<close>: the running value and the trace so far. A disabled
  step is skipped; a step that raises adds its entry, with the text of the running value
  as it is then and the text of the error, and ends the loop. When the error has no text
  (\<open>String(err)\<close> raises), that error escapes and there is no response.
\<close>

fun runSteps :: "host \<Rightarrow> jsval \<Rightarrow> workflowStep list \<Rightarrow> stepResult list
                 \<Rightarrow> error + (jsval \<times> stepResult list)" where
  "runSteps h current [] results = Inr (current, results)"
| "runSteps h current (step # steps) results =
     (if \<not> enabled step then runSteps h current steps results
      else (case executeWorkflowStep h current step of
              (after, Inr c) \<Rightarrow>
                runSteps h c steps
                  (results @ [\<lparr>stepId = step_id step, stepOutput = JSON_stringify2 c,
                               stepError = None\<rparr>])
            | (after, Inl err) \<Rightarrow>
                bindE (errorToString h err)
                  (\<lambda>t. Inr (after,
                            results @ [\<lparr>stepId = step_id step, stepOutput = JSON_stringify2 after,
                                        stepError = Some t\<rparr>]))))"

definition handleRunWorkflow :: "host \<Rightarrow> string \<Rightarrow> workflowStep list \<Rightarrow> error + workflowResult" where
  "handleRunWorkflow h input steps =
     bindE (JSON_parse h input)
       (\<lambda>current. bindE (runSteps h current steps [])
          (\<lambda>(c, results). Inr \<lparr>stepResults = results, finalOutput = JSON_stringify2 c\<rparr>))"

section \<open>The jq-subset interpreter\<close>

text \<open>\<open>typeof v\<close>.\<close>

fun typeOf :: "jsval \<Rightarrow> string" where
  "typeOf JUndef = ''undefined''"
| "typeOf JNull = ''object''"
| "typeOf (JBool b) = ''boolean''"
| "typeOf (JNum n) = ''number''"
| "typeOf (JStr s) = ''string''"
| "typeOf (JArr xs) = ''object''"
| "typeOf (JObj fs) = ''object''"
| "typeOf (JHost n c j) = (if c then ''function'' else ''object'')"

text \<open>
  The order of \<open>sort()\<close> without a comparison function: the elements' texts, code
  unit by code unit; \<open>undefined\<close> elements go last. An element is converted to its text
  only when there are two elements to compare, and then every element is; when several
  elements raise, the one met first in the array is taken to raise first.
\<close>

fun strLess :: "string \<Rightarrow> string \<Rightarrow> bool" where
  "strLess [] [] = False"
| "strLess [] (y # ys) = True"
| "strLess (x # xs) [] = False"
| "strLess (x # xs) (y # ys) =
     ((of_char x :: nat) < (of_char y :: nat) \<or> (x = y \<and> strLess xs ys))"

definition defaultSort :: "host \<Rightarrow> jsval list \<Rightarrow> error + jsval list" where
  "defaultSort h xs =
     (let defined = filter (\<lambda>x. x \<noteq> JUndef) xs;
          undefs = filter (\<lambda>x. x = JUndef) xs
      in if length defined < 2 then Inr (defined @ undefs)
         else bindE (mapE (toString h) defined)
           (\<lambda>ks. Inr (map fst (sortBy (\<lambda>a b. \<not> strLess (snd b) (snd a)) (zip defined ks))
                      @ undefs)))"

text \<open>\<open>[...new Set(xs)]\<close>: the elements in the order of their first occurrence.\<close>

fun setAdd :: "'a list \<Rightarrow> 'a list \<Rightarrow> 'a list" where
  "setAdd seen [] = seen"
| "setAdd seen (x # xs) = setAdd (if x \<in> set seen then seen else seen @ [x]) xs"

definition newSet :: "'a list \<Rightarrow> 'a list" where
  "newSet xs = setAdd [] xs"

text \<open>\<open>JSON.parse(k)\<close> of a key of the set: \<open>undefined\<close> is read as its text.\<close>

definition parseKey :: "host \<Rightarrow> string option \<Rightarrow> error + jsval" where
  "parseKey h k = JSON_parse h (case k of None \<Rightarrow> ''undefined'' | Some t \<Rightarrow> t)"

definition uniqueStage :: "host \<Rightarrow> jsval list \<Rightarrow> error + jsval" where
  "uniqueStage h xs =
     bindE (mapE (parseKey h) (newSet (map JSON_stringify xs))) (\<lambda>ys. Inr (JArr ys))"

definition flat :: "jsval list \<Rightarrow> jsval list" where
  "flat xs = concat (map (\<lambda>x. case x of JArr ys \<Rightarrow> ys | _ \<Rightarrow> [x]) xs)"

text \<open>\<open>key.replace(/\[\]$/, '')\<close>.\<close>

definition dropBrackets :: "string \<Rightarrow> string" where
  "dropBrackets key = (if endsWith key ''[]'' then take (length key - 2) key else key)"

definition fieldStage :: "host \<Rightarrow> jsval \<Rightarrow> string \<Rightarrow> error + jsval" where
  "fieldStage h current key =
     (case current of
        JArr xs \<Rightarrow>
          bindE (mapE (\<lambda>item. if isObjectLike item then getProp h item key else Inr JUndef) xs)
            (\<lambda>vs. Inr (JArr (filter (\<lambda>v. v \<noteq> JUndef) vs)))
      | _ \<Rightarrow> (if isObjectLike current then getProp h current key else Inr current))"

text \<open>\<open>parseInt(s)\<close>.\<close>

definition isHexDigit :: "char \<Rightarrow> bool" where
  "isHexDigit c = (isDigit c \<or> (65 \<le> (of_char c :: nat) \<and> (of_char c :: nat) \<le> 70)
                   \<or> (97 \<le> (of_char c :: nat) \<and> (of_char c :: nat) \<le> 102))"

definition hexVal :: "char \<Rightarrow> nat" where
  "hexVal c = (if isDigit c then digitVal c
               else if (of_char c :: nat) \<le> 70 then (of_char c :: nat) - 55
               else (of_char c :: nat) - 87)"

definition parseIntJs :: "string \<Rightarrow> num" where
  "parseIntJs s =
     (let s0 = dropWhile isSpace s;
          neg = (s0 \<noteq> [] \<and> hd s0 = CHR ''-'');
          s1 = (if s0 \<noteq> [] \<and> (hd s0 = CHR ''-'' \<or> hd s0 = CHR ''+'') then tl s0 else s0);
          hex = (startsWith s1 ''0x'' \<or> startsWith s1 ''0X'');
          s2 = (if hex then drop 2 s1 else s1);
          ds = takeWhile (if hex then isHexDigit else isDigit) s2;
          n = (if hex then foldl (\<lambda>n c. 16 * n + hexVal c) 0 ds else parseNat ds)
      in if ds = [] then NaN else Fin (if neg then - int n else int n))"

text \<open>\<open>xs.slice(start, end)\<close>; \<open>None\<close> is an \<open>undefined\<close> end.\<close>

definition relIndex :: "nat \<Rightarrow> num \<Rightarrow> nat" where
  "relIndex len b =
     (case b of NaN \<Rightarrow> 0
      | Fin k \<Rightarrow> (if k < 0 then nat (max (int len + k) 0) else min (nat k) len))"

definition arraySlice :: "jsval list \<Rightarrow> num \<Rightarrow> num option \<Rightarrow> jsval list" where
  "arraySlice xs start end =
     (let a = relIndex (length xs) start;
          b = (case end of None \<Rightarrow> length xs | Some e \<Rightarrow> relIndex (length xs) e)
      in take (b - a) (drop a xs))"

definition indexStage :: "jsval \<Rightarrow> string \<Rightarrow> jsval" where
  "indexStage current inner =
     (case current of
        JArr xs \<Rightarrow>
          (if inner \<noteq> [] \<and> list_all isDigit inner then arrayAt xs (parseNat inner)
           else if strIncludes inner '':''
           then (case map (\<lambda>n. if trim n \<noteq> [] then Some (parseIntJs (trim n)) else None)
                          (splitOn CHR '':'' inner) of
                   s # e # rest \<Rightarrow> JArr (arraySlice xs (case s of None \<Rightarrow> Fin 0 | Some v \<Rightarrow> v) e)
                 | _ \<Rightarrow> current)
           else current)
      | _ \<Rightarrow> current)"

fun fromEntries :: "host \<Rightarrow> jsval list \<Rightarrow> (string \<times> jsval) list \<Rightarrow> error + jsval" where
  "fromEntries h [] result = Inr (JObj result)"
| "fromEntries h (item # items) result =
     (if isObjectLike item \<and> hasProp h item ''key'' \<and> hasProp h item ''value''
      then bindE (getProp h item ''key'') (\<lambda>k. bindE (toString h k)
             (\<lambda>name. bindE (getProp h item ''value'')
                (\<lambda>v. fromEntries h items (objSet result name v))))
      else fromEntries h items result)"

text \<open>
  The match of \<open>/^\.(\w+)\s*(==|!=|>|>=|<|<=)\s*(.+)$/\<close>: key, operator and the rest.
  The alternatives of the operator are tried in the order written; the rest is what
  follows the white space after the operator and holds no line terminator (when only white
  space follows, it is the last character of that white space).
\<close>

definition restMatch :: "string \<Rightarrow> string option" where
  "restMatch r =
     (let body = dropWhile isSpace r
      in if body \<noteq> [] then (if list_ex isLineTerminator body then None else Some body)
         else if r \<noteq> [] \<and> \<not> isLineTerminator (last r) then Some [last r]
         else None)"

fun firstOp :: "string list \<Rightarrow> string \<Rightarrow> (string \<times> string) option" where
  "firstOp [] r = None"
| "firstOp (op # ops) r =
     (if startsWith r op
      then (case restMatch (drop (length op) r) of
              Some raw \<Rightarrow> Some (op, raw)
            | None \<Rightarrow> firstOp ops r)
      else firstOp ops r)"

definition condMatch :: "string list \<Rightarrow> string \<Rightarrow> (string \<times> string \<times> string) option" where
  "condMatch ops s =
     (let key = takeWhile isWord s
      in if key = [] then None
         else (case firstOp ops (dropWhile isSpace (dropWhile isWord s)) of
                 Some (op, raw) \<Rightarrow> Some (key, op, raw)
               | None \<Rightarrow> None))"

definition jqCondMatch :: "string \<Rightarrow> (string \<times> string \<times> string) option" where
  "jqCondMatch cond =
     (if startsWith cond ''.'' then condMatch [''=='', ''!='', ''>'', ''>='', ''<'', ''<=''] (drop 1 cond)
      else None)"

text \<open>The comparison value of a condition, from its text.\<close>

definition jqLiteral :: "host \<Rightarrow> string \<Rightarrow> jsval" where
  "jqLiteral h rawVal =
     (let c = trim rawVal
      in if c = ''null'' then JNull
         else if c = ''true'' then JBool True
         else if c = ''false'' then JBool False
         else if 2 \<le> length c \<and> hd c = CHR 0x22 \<and> last c = CHR 0x22
                 \<and> \<not> list_ex isLineTerminator (sliceInner 1 c)
           then JStr (sliceInner 1 c)
         else if stringToNumber h c \<noteq> NaN then JNum (stringToNumber h c)
         else JStr c)"

definition evalJqCondition :: "host \<Rightarrow> jsval \<Rightarrow> string \<Rightarrow> error + bool" where
  "evalJqCondition h item cond =
     (case (if isObjectLike item then jqCondMatch cond else None) of
        Some (key, op, rawVal) \<Rightarrow>
          bindE (getProp h item key)
            (\<lambda>fieldVal.
               (let cmpVal = jqLiteral h rawVal
                in if op = ''=='' then Inr (strictEq fieldVal cmpVal
                                           \<or> JSON_stringify fieldVal = JSON_stringify cmpVal)
                   else if op = ''!='' then Inr (\<not> strictEq fieldVal cmpVal)
                   else bindE (toNumber h fieldVal)
                     (\<lambda>a. bindE (toNumber h cmpVal)
                        (\<lambda>b. Inr (if op = ''>'' then numLess b a
                                   else if op = ''>='' then numLessEq b a
                                   else if op = ''<'' then numLess a b
                                   else numLessEq a b)))))
      | None \<Rightarrow>
          (if startsWith cond ''.'' \<and> isObjectLike item
           then bindE (getProp h item (drop 1 cond)) (\<lambda>v. Inr (truthy v))
           else Inr True))"

definition selectStage :: "host \<Rightarrow> jsval \<Rightarrow> string \<Rightarrow> error + jsval" where
  "selectStage h current cond =
     (case current of
        JArr xs \<Rightarrow> bindE (filterE (\<lambda>item. evalJqCondition h item cond) xs) (\<lambda>ys. Inr (JArr ys))
      | _ \<Rightarrow> Inr current)"

definition toEntries :: "jsval \<Rightarrow> jsval" where
  "toEntries current =
     (case current of
        JObj fs \<Rightarrow> JArr (map (\<lambda>(k, v). JObj [(''key'', JStr k), (''value'', v)]) fs)
      | JHost n c j \<Rightarrow> (if c then current else JArr [])
      | _ \<Rightarrow> current)"

text \<open>Every stage but \<open>map(...)\<close>, in the order of the source's chain of tests;
  \<open>map(...)\<close>, which runs the interpreter again, has its place in \<open>jqParts\<close>.\<close>

definition jqStage :: "host \<Rightarrow> jsval \<Rightarrow> string \<Rightarrow> error + jsval" where
  "jqStage h current part =
     (if part = ''keys'' \<or> part = ''keys[]''
        then (if isObjectLike current then bindE (objectKeys current) (\<lambda>ks. Inr (JArr ks))
              else Inr current)
      else if part = ''values'' \<or> part = ''values[]''
        then (if isObjectLike current then bindE (objectValues current) (\<lambda>vs. Inr (JArr vs))
              else Inr current)
      else if part = ''length''
        then Inr (case current of
                    JArr xs \<Rightarrow> JInt (int (length xs))
                  | JObj fs \<Rightarrow> JInt (int (length fs))
                  | JHost n c j \<Rightarrow> (if c then current else JInt 0)
                  | JStr s \<Rightarrow> JInt (int (length s))
                  | _ \<Rightarrow> current)
      else if part = ''flatten''
        then Inr (case current of JArr xs \<Rightarrow> JArr (flat xs) | _ \<Rightarrow> current)
      else if part = ''sort''
        then (case current of
                JArr xs \<Rightarrow> bindE (defaultSort h xs) (\<lambda>ys. Inr (JArr ys))
              | _ \<Rightarrow> Inr current)
      else if part = ''unique''
        then (case current of JArr xs \<Rightarrow> uniqueStage h xs | _ \<Rightarrow> Inr current)
      else if part = ''reverse''
        then Inr (case current of JArr xs \<Rightarrow> JArr (rev xs) | _ \<Rightarrow> current)
      else if part = ''type''
        then Inr (JStr (if isArray current then ''array''
                        else if current = JNull then ''null'' else typeOf current))
      else if startsWith part ''.''
        then fieldStage h current (dropBrackets (drop 1 part))
      else if startsWith part ''select('' \<and> endsWith part '')''
        then selectStage h current (trim (sliceInner 7 part))
      else if startsWith part ''['' \<and> endsWith part '']''
        then Inr (indexStage current (trim (sliceInner 1 part)))
      else if part = ''first''
        then Inr (case current of JArr xs \<Rightarrow> arrayAt xs 0 | _ \<Rightarrow> current)
      else if part = ''last''
        then Inr (case current of
                    JArr xs \<Rightarrow> (if xs = [] then JUndef else arrayAt xs (length xs - 1))
                  | _ \<Rightarrow> current)
      else if part = ''not''
        then Inr (JBool (\<not> truthy current))
      else if part = ''to_entries''
        then Inr (toEntries current)
      else if part = ''from_entries''
        then (case current of JArr xs \<Rightarrow> fromEntries h xs [] | _ \<Rightarrow> Inr current)
      else Inr current)"

definition isMapStage :: "string \<Rightarrow> bool" where
  "isMapStage part =
     (part \<noteq> ''.'' \<and> part \<notin> set [''keys'', ''keys[]'', ''values'', ''values[]'', ''length'', ''flatten'',
                                     ''sort'', ''unique'', ''reverse'', ''type'']
      \<and> \<not> startsWith part ''.'' \<and> startsWith part ''map('' \<and> endsWith part '')'')"

function executeJq :: "host \<Rightarrow> jsval \<Rightarrow> string \<Rightarrow> error + jsval"
  and jqParts :: "host \<Rightarrow> jsval \<Rightarrow> string list \<Rightarrow> error + jsval"
  and jqMap :: "host \<Rightarrow> jsval list \<Rightarrow> string \<Rightarrow> error + jsval list" where
  "executeJq h data query = jqParts h data (map trim (splitOn CHR ''|'' query))"
| "jqParts h current [] = Inr current"
| "jqParts h current (part # parts) =
     (if part = ''.'' then jqParts h current parts
      else if isMapStage part
        then (case current of
                JArr xs \<Rightarrow>
                  bindE (jqMap h xs (trim (sliceInner 4 part))) (\<lambda>ys. jqParts h (JArr ys) parts)
              | _ \<Rightarrow> jqParts h current parts)
      else bindE (jqStage h current part) (\<lambda>c. jqParts h c parts))"
| "jqMap h [] innerExpr = Inr []"
| "jqMap h (item # items) innerExpr =
     bindE (executeJq h item innerExpr)
       (\<lambda>y. bindE (jqMap h items innerExpr) (\<lambda>ys. Inr (y # ys)))"
  by pat_completeness auto
termination
proof -
  have trim_le: "length (trim s) \<le> length s" for s
  proof -
    have "length (dropWhile isSpace (rev (dropWhile isSpace s))) \<le> length (rev (dropWhile isSpace s))"
      by (rule length_dropWhile_le)
    also have "\<dots> \<le> length s" by (simp add: length_dropWhile_le)
    finally show ?thesis by (simp add: trim_def)
  qed
  have split_len: "sum_list (map length (splitOn c s)) + length (splitOn c s) = Suc (length s)"
    for c s
    by (induction s) (auto split: list.splits)
  have trim_sum: "sum_list (map (length \<circ> trim) ps) \<le> sum_list (map length ps)" for ps
    by (induction ps) (auto simp: trim_le add_mono)
  have parts_le: "sum_list (map (length \<circ> trim) (splitOn c s)) + length (splitOn c s)
                    \<le> Suc (length s)" for c s
    using trim_sum [of "splitOn c s"] split_len [of c s] by linarith
  have inner_le: "length (trim (sliceInner 4 part)) + 5 \<le> length part" if "isMapStage part" for part
  proof -
    define rest where "rest = drop (length ''map('') part"
    from that have a: "startsWith part ''map(''" and b: "endsWith part '')''"
      by (simp_all add: isMapStage_def)
    have "take (length ''map('') part @ rest = part"
      unfolding rest_def by (rule append_take_drop_id)
    with a have p: "part = ''map('' @ rest"
      unfolding startsWith_def by simp
    have "rest \<noteq> []"
    proof
      assume "rest = []"
      with p have "part = ''map(''" by simp
      with b show False by (simp add: endsWith_def)
    qed
    then have "length (sliceInner 4 part) + 5 = length part"
      by (simp add: p sliceInner_def butlast_append)
    with trim_le [of "sliceInner 4 part"] show ?thesis by linarith
  qed
  show ?thesis
    apply (relation "measures
        [\<lambda>x. case x of
               Inl (h, d, q) \<Rightarrow> 2 * length q + 3
             | Inr (Inl (h, c, ps)) \<Rightarrow> 2 * (sum_list (map length ps) + length ps)
             | Inr (Inr (h, xs, q)) \<Rightarrow> 2 * length q + 4,
         \<lambda>x. case x of
               Inl (h, d, q) \<Rightarrow> 0
             | Inr (Inl (h, c, ps)) \<Rightarrow> 0
             | Inr (Inr (h, xs, q)) \<Rightarrow> length xs]")
    apply simp_all
    subgoal for query using parts_le [of "CHR ''|''" query] by linarith
    subgoal premises prems using inner_le [OF prems(2)] by linarith
    done
qed

declare executeJq.simps [simp del]

section \<open>The JSONata-subset interpreter\<close>

text \<open>The match of \<open>/^(\w+)\[(.+)\]$/\<close>: the key and the text between the brackets.\<close>

definition filterMatch :: "string \<Rightarrow> (string \<times> string) option" where
  "filterMatch part =
     (let key = takeWhile isWord part; rest = dropWhile isWord part
      in if key \<noteq> [] \<and> 3 \<le> length rest \<and> hd rest = CHR ''['' \<and> last rest = CHR '']''
            \<and> \<not> list_ex isLineTerminator (butlast (tl rest))
         then Some (key, butlast (tl rest)) else None)"

text \<open>The comparison value of a bracket predicate, from its text.\<close>

definition jsonataLiteral :: "host \<Rightarrow> string \<Rightarrow> jsval" where
  "jsonataLiteral h fVal =
     (let c = trim fVal
      in if 2 \<le> length c \<and> isQuoteChar (hd c) \<and> isQuoteChar (last c)
            \<and> \<not> list_ex isLineTerminator (sliceInner 1 c)
         then JStr (sliceInner 1 c)
         else if stringToNumber h c \<noteq> NaN then JNum (stringToNumber h c)
         else JStr c)"

text \<open>The test of a bracket predicate on one element; \<open>String(v)\<close> is not evaluated
  when \<open>v === compareVal\<close>.\<close>

definition predicateTest :: "host \<Rightarrow> string \<Rightarrow> string \<Rightarrow> jsval \<Rightarrow> jsval \<Rightarrow> error + bool" where
  "predicateTest h fKey fOp compareVal item =
     (if \<not> isObjectLike item then Inr False
      else bindE (getProp h item fKey)
             (\<lambda>v. if fOp = ''=''
                    then (if strictEq v compareVal then Inr True
                          else bindE (toString h v)
                                 (\<lambda>a. bindE (toString h compareVal) (\<lambda>b. Inr (a = b))))
                  else if fOp = ''!='' then Inr (\<not> strictEq v compareVal)
                  else if fOp = ''>''
                    then bindE (toNumber h v)
                           (\<lambda>a. bindE (toNumber h compareVal) (\<lambda>b. Inr (numLess b a)))
                  else if fOp = ''<''
                    then bindE (toNumber h v)
                           (\<lambda>a. bindE (toNumber h compareVal) (\<lambda>b. Inr (numLess a b)))
                  else Inr False))"

definition predicateStage :: "host \<Rightarrow> jsval \<Rightarrow> string \<Rightarrow> error + jsval" where
  "predicateStage h current flt =
     (case current of
        JArr xs \<Rightarrow>
          (case condMatch [''='', ''!='', ''>'', ''<''] flt of
             Some (fKey, fOp, fVal) \<Rightarrow>
               bindE (filterE (predicateTest h fKey fOp (jsonataLiteral h fVal)) xs)
                 (\<lambda>ys. Inr (JArr ys))
           | None \<Rightarrow> Inr current)
      | _ \<Rightarrow> Inr current)"

fun resolveLoop :: "host \<Rightarrow> jsval \<Rightarrow> string list \<Rightarrow> error + jsval" where
  "resolveLoop h current [] = Inr current"
| "resolveLoop h current (part # parts) =
     (if part = ''*''
      then (if isArray current then Inr current
            else if isObjectLike current then bindE (objectValues current) (\<lambda>vs. Inr (JArr vs))
            else Inr current)
      else (case filterMatch part of
              Some (key, flt) \<Rightarrow>
                bindE (if isObjectLike current then getProp h current key else Inr current)
                  (\<lambda>c. bindE (predicateStage h c flt) (\<lambda>c'. resolveLoop h c' parts))
            | None \<Rightarrow>
                (case current of
                   JArr xs \<Rightarrow>
                     bindE (mapE (\<lambda>item. if isObjectLike item then getProp h item part
                                          else Inr JUndef) xs)
                       (\<lambda>vs. resolveLoop h (JArr (filter (\<lambda>v. v \<noteq> JUndef) vs)) parts)
                 | _ \<Rightarrow>
                     (if isObjectLike current
                      then bindE (getProp h current part) (\<lambda>c. resolveLoop h c parts)
                      else Inr JUndef))))"

definition resolveJsonataPath :: "host \<Rightarrow> jsval \<Rightarrow> string \<Rightarrow> error + jsval" where
  "resolveJsonataPath h data path =
     resolveLoop h data (filter (\<lambda>p. p \<noteq> []) (splitOn CHR ''.'' path))"

text \<open>The match of \<open>/^\$name\((\S+)\)$/\<close>, given \<open>$name(\<close>: the text between the
  parentheses.\<close>

definition callMatch :: "string \<Rightarrow> string \<Rightarrow> string option" where
  "callMatch opening s =
     (if startsWith s opening \<and> length opening + 2 \<le> length s \<and> last s = CHR '')''
         \<and> \<not> list_ex isSpace (sliceInner (length opening) s)
      then Some (sliceInner (length opening) s) else None)"

text \<open>\<open>values.reduce((s, v) => s + Number(v), 0)\<close>.\<close>

fun sumLoop :: "host \<Rightarrow> num \<Rightarrow> jsval list \<Rightarrow> error + num" where
  "sumLoop h s [] = Inr s"
| "sumLoop h s (v # vs) = bindE (toNumber h v) (\<lambda>n. sumLoop h (numAdd s n) vs)"

definition executeJsonata :: "host \<Rightarrow> jsval \<Rightarrow> string \<Rightarrow> error + jsval" where
  "executeJsonata h data query =
     (let trimmed = trim query
      in if trimmed = ''$count($)'' \<or> trimmed = ''count($)''
         then Inr (case data of
                     JArr xs \<Rightarrow> JInt (int (length xs))
                   | JObj fs \<Rightarrow> JInt (int (length fs))
                   | JHost n c j \<Rightarrow> JInt (if c then 1 else 0)
                   | _ \<Rightarrow> JInt 1)
         else (case callMatch ''$sum('' trimmed of
                 Some path \<Rightarrow>
                   bindE (resolveJsonataPath h data path)
                     (\<lambda>values. case values of
                                  JArr vs \<Rightarrow> bindE (sumLoop h (Fin 0) vs) (\<lambda>n. Inr (JNum n))
                                | _ \<Rightarrow> bindE (toNumber h values) (\<lambda>n. Inr (JNum n)))
               | None \<Rightarrow>
                   (case callMatch ''$distinct('' trimmed of
                      Some path \<Rightarrow>
                        bindE (resolveJsonataPath h data path)
                          (\<lambda>values. case values of
                                       JArr vs \<Rightarrow> uniqueStage h vs
                                     | _ \<Rightarrow> Inr values)
                    | None \<Rightarrow> resolveJsonataPath h data trimmed)))"

section \<open>The Mongo-query-subset matcher\<close>

text \<open>\<open>xs.includes(v)\<close>.\<close>

definition arrayIncludes :: "jsval list \<Rightarrow> jsval \<Rightarrow> bool" where
  "arrayIncludes xs v = list_ex (\<lambda>x. strictEq x v \<or> (x = JNum NaN \<and> v = JNum NaN)) xs"

text \<open>One \<open>case\<close> of the operator \<open>switch\<close>: \<open>False\<close> is its \<open>return false\<close>,
  \<open>True\<close> its \<open>break\<close>. The comparisons convert the field's value first, then
  the operand.\<close>

definition compareNumbers :: "host \<Rightarrow> jsval \<Rightarrow> jsval \<Rightarrow> (num \<Rightarrow> num \<Rightarrow> bool) \<Rightarrow> error + bool" where
  "compareNumbers h fieldVal opVal test =
     bindE (toNumber h fieldVal) (\<lambda>a. bindE (toNumber h opVal) (\<lambda>b. Inr (test a b)))"

definition opTest :: "host \<Rightarrow> jsval \<Rightarrow> string \<Rightarrow> jsval \<Rightarrow> error + bool" where
  "opTest h fieldVal op opVal =
     (if op = ''$eq'' then Inr (strictEq fieldVal opVal)
      else if op = ''$ne'' then Inr (\<not> strictEq fieldVal opVal)
      else if op = ''$gt'' then compareNumbers h fieldVal opVal (\<lambda>a b. \<not> numLessEq a b)
      else if op = ''$gte'' then compareNumbers h fieldVal opVal (\<lambda>a b. \<not> numLess a b)
      else if op = ''$lt'' then compareNumbers h fieldVal opVal (\<lambda>a b. \<not> numLessEq b a)
      else if op = ''$lte'' then compareNumbers h fieldVal opVal (\<lambda>a b. \<not> numLess b a)
      else if op = ''$in''
        then Inr (case opVal of JArr vs \<Rightarrow> arrayIncludes vs fieldVal | _ \<Rightarrow> False)
      else if op = ''$nin''
        then Inr (case opVal of JArr vs \<Rightarrow> \<not> arrayIncludes vs fieldVal | _ \<Rightarrow> True)
      else if op = ''$exists''
        then Inr (\<not> ((truthy opVal \<and> fieldVal = JUndef) \<or> (\<not> truthy opVal \<and> fieldVal \<noteq> JUndef)))
      else if op = ''$regex''
        then bindE (toString h opVal)
               (\<lambda>p. bindE (RegExp_new h p)
                  (\<lambda>re. bindE (toString h fieldVal) (\<lambda>t. Inr (re t))))
      else Inr True)"

fun opsLoop :: "host \<Rightarrow> jsval \<Rightarrow> (string \<times> jsval) list \<Rightarrow> error + bool" where
  "opsLoop h fieldVal [] = Inr True"
| "opsLoop h fieldVal ((op, opVal) # ops) =
     bindE (opTest h fieldVal op opVal)
       (\<lambda>ok. if ok then opsLoop h fieldVal ops else Inr False)"

text \<open>The body of the loop over the query's entries for a key that is none of
  \<open>$and\<close>, \<open>$or\<close>, \<open>$not\<close>: \<open>False\<close> is its \<open>return false\<close>.\<close>

definition fieldMatches :: "host \<Rightarrow> jsval \<Rightarrow> string \<Rightarrow> jsval \<Rightarrow> error + bool" where
  "fieldMatches h obj key condition =
     bindE (getProp h obj key)
       (\<lambda>fieldVal. if isObjectLike condition \<and> \<not> isArray condition
                   then bindE (objectEntries condition) (opsLoop h fieldVal)
                   else Inr (\<not> (\<not> strictEq fieldVal condition
                                  \<and> JSON_stringify fieldVal \<noteq> JSON_stringify condition)))"

text \<open>The loop over the entries of a query that is an array, a string, a number or a
  boolean: their keys are indices, so none is \<open>$and\<close>, \<open>$or\<close> or \<open>$not\<close>.\<close>

fun indexEntries :: "host \<Rightarrow> jsval \<Rightarrow> (string \<times> jsval) list \<Rightarrow> error + bool" where
  "indexEntries h obj [] = Inr True"
| "indexEntries h obj ((key, condition) # rest) =
     bindE (fieldMatches h obj key condition)
       (\<lambda>ok. if ok then indexEntries h obj rest else Inr False)"

fun matchesMongo :: "host \<Rightarrow> jsval \<Rightarrow> jsval \<Rightarrow> error + bool"
  and matchEntries :: "host \<Rightarrow> jsval \<Rightarrow> (string \<times> jsval) list \<Rightarrow> error + bool"
  and everyMongo :: "host \<Rightarrow> jsval \<Rightarrow> jsval list \<Rightarrow> error + bool"
  and someMongo :: "host \<Rightarrow> jsval \<Rightarrow> jsval list \<Rightarrow> error + bool" where
  "matchesMongo h item (JObj fs) =
     (if \<not> isObjectLike item then Inr False else matchEntries h item fs)"
| "matchesMongo h item JUndef =
     (if \<not> isObjectLike item then Inr False else bindE (objectEntries JUndef) (indexEntries h item))"
| "matchesMongo h item JNull =
     (if \<not> isObjectLike item then Inr False else bindE (objectEntries JNull) (indexEntries h item))"
| "matchesMongo h item (JBool b) =
     (if \<not> isObjectLike item then Inr False
      else bindE (objectEntries (JBool b)) (indexEntries h item))"
| "matchesMongo h item (JNum n) =
     (if \<not> isObjectLike item then Inr False
      else bindE (objectEntries (JNum n)) (indexEntries h item))"
| "matchesMongo h item (JStr s) =
     (if \<not> isObjectLike item then Inr False
      else bindE (objectEntries (JStr s)) (indexEntries h item))"
| "matchesMongo h item (JArr xs) =
     (if \<not> isObjectLike item then Inr False
      else bindE (objectEntries (JArr xs)) (indexEntries h item))"
| "matchesMongo h item (JHost n c j) =
     (if \<not> isObjectLike item then Inr False
      else bindE (objectEntries (JHost n c j)) (indexEntries h item))"
| "matchEntries h item [] = Inr True"
| "matchEntries h item ((key, condition) # rest) =
     (if key = ''$and''
        then (case condition of JArr cs \<Rightarrow> everyMongo h item cs | _ \<Rightarrow> Inr False)
      else if key = ''$or''
        then (case condition of JArr cs \<Rightarrow> someMongo h item cs | _ \<Rightarrow> Inr False)
      else if key = ''$not''
        then bindE (matchesMongo h item condition) (\<lambda>b. Inr (\<not> b))
      else bindE (fieldMatches h item key condition)
             (\<lambda>ok. if ok then matchEntries h item rest else Inr False))"
| "everyMongo h item [] = Inr True"
| "everyMongo h item (c # cs) =
     bindE (matchesMongo h item c) (\<lambda>b. if b then everyMongo h item cs else Inr False)"
| "someMongo h item [] = Inr False"
| "someMongo h item (c # cs) =
     bindE (matchesMongo h item c) (\<lambda>b. if b then Inr True else someMongo h item cs)"

definition mongoScan :: "host \<Rightarrow> jsval list \<Rightarrow> jsval \<Rightarrow> error + jsval" where
  "mongoScan h xs query =
     bindE (filterE (\<lambda>item. matchesMongo h item query) xs) (\<lambda>ys. Inr (JArr ys))"

text \<open>The body of the \<open>try\<close> block of \<open>executeMongodb\<close>, and the function: whatever
  the body raises is raised again as \<open>Invalid MongoDB query\<close> with the text of what
  was raised, unless taking that text raises itself.\<close>

definition mongoBody :: "host \<Rightarrow> jsval \<Rightarrow> string \<Rightarrow> error + jsval" where
  "mongoBody h data queryStr =
     bindE (JSON_parse h queryStr)
       (\<lambda>query. case data of
                   JArr xs \<Rightarrow> mongoScan h xs query
                 | _ \<Rightarrow>
                     (if isObjectLike data
                      then bindE (objectValues data)
                             (\<lambda>vs. case filter isArray vs of
                                     JArr xs # others \<Rightarrow> mongoScan h xs query
                                   | _ \<Rightarrow> bindE (matchesMongo h data query)
                                            (\<lambda>b. Inr (if b then data else JNull)))
                      else Inr data))"

definition executeMongodb :: "host \<Rightarrow> jsval \<Rightarrow> string \<Rightarrow> error + jsval" where
  "executeMongodb h data queryStr =
     (case mongoBody h data queryStr of
        Inl err \<Rightarrow>
          bindE (errorToString h err) (\<lambda>t. Inl (Error (''Invalid MongoDB query: '' @ t)))
      | Inr v \<Rightarrow> Inr v)"

section \<open>The query request\<close>

datatype queryLanguage = Jq | Jsonata | Mongodb

record queryResult =
  resultText :: "string option"
  errorText :: "string option"

text \<open>The answer to a query request; \<open>String(err)\<close> is evaluated in the \<open>catch\<close>
  block, so what it raises leaves the function.\<close>

definition handleQuery :: "host \<Rightarrow> string \<Rightarrow> string \<Rightarrow> queryLanguage \<Rightarrow> error + queryResult" where
  "handleQuery h jsonStr query language =
     (case bindE (JSON_parse h jsonStr)
             (\<lambda>data. case language of
                        Jq \<Rightarrow> executeJq h data query
                      | Jsonata \<Rightarrow> executeJsonata h data query
                      | Mongodb \<Rightarrow> executeMongodb h data query) of
        Inr r \<Rightarrow> Inr \<lparr>resultText = JSON_stringify2 r, errorText = None\<rparr>
      | Inl err \<Rightarrow>
          bindE (errorToString h err) (\<lambda>t. Inr \<lparr>resultText = Some [], errorText = Some t\<rparr>))"

section \<open>Notions used to state the properties\<close>

text \<open>The distinct elements of a list in the order of each element's first occurrence,
  and the position of the first occurrence of an element.\<close>

fun firstOccurrences :: "'a list \<Rightarrow> 'a list" where
  "firstOccurrences [] = []"
| "firstOccurrences (x # xs) = x # filter (\<lambda>y. y \<noteq> x) (firstOccurrences xs)"

definition firstIndex :: "'a list \<Rightarrow> 'a \<Rightarrow> nat" where
  "firstIndex xs a = length (takeWhile (\<lambda>y. y \<noteq> a) xs)"

text \<open>The accessor that continues the accessor \<open>p\<close> with the segment \<open>s\<close>; the empty
  accessor stands for the value itself.\<close>

definition extendPath :: "string \<Rightarrow> string \<Rightarrow> string" where
  "extendPath p s = (if p = [] then s else p @ ''.'' @ s)"

text \<open>
  Values whose conversion to a string or to a number raises on no host: every primitive;
  an object with no own \<open>toString\<close> property (and no host object as its own
  \<open>valueOf\<close>); an array of such values. A host object is not among them.
\<close>

fun convertible :: "jsval \<Rightarrow> bool" where
  "convertible (JArr xs) = list_all convertible xs"
| "convertible (JObj fs) =
     (map_of fs ''toString'' = None
      \<and> (case map_of fs ''valueOf'' of Some m \<Rightarrow> \<not> isHost m | None \<Rightarrow> True))"
| "convertible (JHost n c j) = False"
| "convertible v = True"

text \<open>
  A query on which the match of \<open>item\<close> cannot raise: no \<open>null\<close> where a query
  document is expected (the query itself, the operand of \<open>$not\<close>, a member of
  \<open>$and\<close> or \<open>$or\<close>); each comparison \<open>$gt\<close>, \<open>$gte\<close>, \<open>$lt\<close>, \<open>$lte\<close>
  between convertible values; each \<open>$regex\<close> with a pattern that the host accepts, on
  a convertible value; no read of a property that raises (a read on JSON data never does).
  What follows a \<open>$and\<close>, \<open>$or\<close> or \<open>$not\<close> entry is never looked at by the matcher.
\<close>

definition safeOp :: "host \<Rightarrow> jsval \<Rightarrow> string \<times> jsval \<Rightarrow> bool" where
  "safeOp h fieldVal = (\<lambda>(op, opVal).
     if op = ''$gt'' \<or> op = ''$gte'' \<or> op = ''$lt'' \<or> op = ''$lte''
       then convertible fieldVal \<and> convertible opVal
     else if op = ''$regex''
       then convertible fieldVal
            \<and> (case toString h opVal of Inr p \<Rightarrow> \<not> isl (RegExp_new h p) | Inl e \<Rightarrow> False)
     else True)"

definition safeField :: "host \<Rightarrow> jsval \<Rightarrow> string \<times> jsval \<Rightarrow> bool" where
  "safeField h item = (\<lambda>(key, condition).
     case getProp h item key of
       Inl e \<Rightarrow> False
     | Inr fieldVal \<Rightarrow>
         (case condition of JObj ops \<Rightarrow> list_all (safeOp h fieldVal) ops | _ \<Rightarrow> True))"

fun safeQuery :: "host \<Rightarrow> jsval \<Rightarrow> jsval \<Rightarrow> bool"
  and safeEntries :: "host \<Rightarrow> jsval \<Rightarrow> (string \<times> jsval) list \<Rightarrow> bool"
  and safeQueries :: "host \<Rightarrow> jsval \<Rightarrow> jsval list \<Rightarrow> bool" where
  "safeQuery h item (JObj fs) = safeEntries h item fs"
| "safeQuery h item JUndef = False"
| "safeQuery h item JNull = False"
| "safeQuery h item (JBool b) = True"
| "safeQuery h item (JNum n) = True"
| "safeQuery h item (JStr s) =
     list_all (safeField h item) (zip (map showNat [0 ..< length s]) (map (\<lambda>c. JStr [c]) s))"
| "safeQuery h item (JArr xs) =
     list_all (safeField h item) (zip (map showNat [0 ..< length xs]) xs)"
| "safeQuery h item (JHost n c j) = True"
| "safeEntries h item [] = True"
| "safeEntries h item ((key, condition) # rest) =
     (if key = ''$and'' then (case condition of JArr cs \<Rightarrow> safeQueries h item cs | _ \<Rightarrow> True)
      else if key = ''$or'' then (case condition of JArr cs \<Rightarrow> safeQueries h item cs | _ \<Rightarrow> True)
      else if key = ''$not'' then safeQuery h item condition
      else safeField h item (key, condition) \<and> safeEntries h item rest)"
| "safeQueries h item [] = True"
| "safeQueries h item (c # cs) = (safeQuery h item c \<and> safeQueries h item cs)"

text \<open>The documents that \<open>executeMongodb\<close> matches against the query: the elements of
  an array, the elements of the first array among the values of an object, otherwise the
  object itself; nothing for any other value.\<close>

definition scanned :: "jsval \<Rightarrow> jsval list" where
  "scanned data =
     (case data of
        JArr xs \<Rightarrow> xs
      | JObj fs \<Rightarrow> (case filter isArray (map snd fs) of JArr xs # others \<Rightarrow> xs | _ \<Rightarrow> [data])
      | JHost n c j \<Rightarrow> (if c then [] else [data])
      | _ \<Rightarrow> [])"

subsection \<open>An example host\<close>

text \<open>
  A host for concrete runs. It reads the JSON texts listed and reads decimal integers as
  numbers; it takes a pattern made of word characters as the search for that word and
  rejects any other pattern; it compares texts code unit by code unit. Of program text it
  evaluates one function, \<open>(d) => { d.a = 2; throw new Error("boom") }\<close>, which
  writes to its argument and then throws. Every value inherits \<open>constructor\<close>, the
  function of its kind, whose \<open>name\<close> is the kind and whose \<open>caller\<close> and
  \<open>arguments\<close> raise a \<open>TypeError\<close> on being read. The messages of the errors
  that this host raises are its own; an engine words them differently.
\<close>

definition exampleParse :: "string \<Rightarrow> error + jsval" where
  "exampleParse s =
     (if s = ''1'' then Inr (JInt 1)
      else if s = ''2'' then Inr (JInt 2)
      else if s = ''null'' then Inr JNull
      else if s = ''{\"a\":1}'' then Inr (JObj [(''a'', JInt 1)])
      else if s = ''{\"a\":1,\"b\":2,\"c\":3}''
        then Inr (JObj [(''a'', JInt 1), (''b'', JInt 2), (''c'', JInt 3)])
      else if s = ''{\"$not\":null}'' then Inr (JObj [(''$not'', JNull)])
      else if s = ''{\"age\":{\"$gt\":18}}''
        then Inr (JObj [(''age'', JObj [(''$gt'', JInt 18)])])
      else Inl (SyntaxError ''Unexpected token''))"

definition exampleNumber :: "string \<Rightarrow> num" where
  "exampleNumber s =
     (let t = trim s
      in if t = [] then Fin 0
         else if list_all isDigit t then Fin (int (parseNat t))
         else if hd t = CHR ''-'' \<and> tl t \<noteq> [] \<and> list_all isDigit (tl t)
           then Fin (- int (parseNat (tl t)))
         else NaN)"

definition exampleCall :: "string \<Rightarrow> jsval \<Rightarrow> jsval \<times> (error + jsval)" where
  "exampleCall src v =
     (if src = ''(d) => { d.a = 2; throw new Error(\"boom\") }''
      then (case v of
              JObj fs \<Rightarrow> (JObj (objSet fs ''a'' (JInt 2)), Inl (Error ''boom''))
            | JArr xs \<Rightarrow> (v, Inl (Error ''boom''))
            | JHost n c j \<Rightarrow> (v, Inl (Error ''boom''))
            | JUndef \<Rightarrow> (v, Inl (TypeError ''Cannot set properties of undefined''))
            | JNull \<Rightarrow> (v, Inl (TypeError ''Cannot set properties of null''))
            | _ \<Rightarrow> (v, Inl (TypeError ''Cannot create property'')))
      else (v, Inl (SyntaxError ''Unexpected token'')))"

definition exampleKinds :: "string list" where
  "exampleKinds = [''Object'', ''Array'', ''String'', ''Number'', ''Boolean'']"

definition exampleHost :: host where
  "exampleHost =
     \<lparr>JSON_parse = exampleParse,
      stringToNumber = exampleNumber,
      RegExp_new = (\<lambda>p. if list_all isWord p then Inr (\<lambda>s. strIncludes s p)
                         else Inl (SyntaxError ''Invalid regular expression'')),
      localeCompareNumeric = (\<lambda>a b. if strLess a b then - 1 else if strLess b a then 1 else 0),
      callFunction = exampleCall,
      inheritedMember = (\<lambda>kind k. if k = ''constructor'' then JHost kind True None else JUndef),
      hostGet = (\<lambda>n k. if n \<in> set exampleKinds
                         then (if k = ''name'' then Inr (JStr n)
                               else if k = ''caller'' \<or> k = ''arguments''
                                 then Inl (TypeError ''Restricted function property'')
                               else Inr JUndef)
                       else Inr JUndef),
      hostToString = (\<lambda>n. Inr (if n = ''Object.prototype'' then ''[object Object]''
                               else ''function () { [native code] }'')),
      hostToNumber = (\<lambda>n. Inr NaN),
      callMethod = (\<lambda>n v. if n = ''Object.prototype.toString''
                              \<or> n = ''Object.prototype.toLocaleString''
                            then Inr (JStr ''[object Object]'')
                          else if n = ''Object.prototype.valueOf'' then Inr v
                          else Inl (TypeError ''Illegal invocation''))\<rparr>"

definition exampleStep :: "stepType \<Rightarrow> string \<Rightarrow> workflowStep" where
  "exampleStep t c =
     \<lparr>step_id = ''s'', step_name = ''n'', step_type = t, config = c, enabled = True\<rparr>"

section \<open>Properties of the path resolver\<close>

lemma getNestedLoop_undef: "getNestedLoop h JUndef ps = Inr JUndef"
  by (cases ps) simp_all


lemma getNestedLoop_append:
  "getNestedLoop h current (ps @ qs)
     = bindE (getNestedLoop h current ps) (\<lambda>v. getNestedLoop h v qs)"
proof (induction ps arbitrary: current)
  case Nil
  show ?case by (simp add: bindE_def)
next
  case (Cons p ps)
  show ?case
  proof (cases "current = JNull \<or> current = JUndef")
    case True
    then show ?thesis by (auto simp: bindE_def getNestedLoop_undef)
  next
    case False
    then show ?thesis
      by (auto simp: bindE_def Cons.IH split: option.splits sum.splits)
  qed
qed

lemma splitOn_nonempty: "splitOn c s \<noteq> []"
  by (induction s) (auto split: list.splits)

lemma splitOn_append: "splitOn c (p @ c # q) = splitOn c p @ splitOn c q"
proof (induction p)
  case Nil
  show ?case by simp
next
  case (Cons x p)
  then show ?case
    using splitOn_nonempty [of c p] by (auto split: list.splits)
qed


lemma getNestedValue_compose:
  assumes "p \<noteq> []" "q \<noteq> []"
  shows "getNestedValue h obj (p @ ''.'' @ q)
           = bindE (getNestedValue h obj p) (\<lambda>v. getNestedValue h v q)"
  using assms by (simp add: getNestedValue_def splitOn_append getNestedLoop_append)



lemma extendPath_nonempty: "s \<noteq> [] \<Longrightarrow> extendPath p s \<noteq> []"
  by (simp add: extendPath_def)



lemma takeWhile_all: "list_all P k \<Longrightarrow> takeWhile P k = k"
  by (induction k) auto

lemma dropWhile_all: "list_all P k \<Longrightarrow> dropWhile P k = []"
  by (induction k) auto

lemma arrMatch_word: "list_all isWord k \<Longrightarrow> arrMatch k = None"
  by (simp add: arrMatch_def takeWhile_all dropWhile_all)












section \<open>Properties of the workflow engine\<close>














lemma pick_ab_first:
  assumes "step_type p = KPick" "config p = ''a,b''"
  shows "executeWorkflowStep h (JObj [(''a'', JInt 1), (''b'', JInt 2), (''c'', JInt 3)]) p
           = (JObj [(''a'', JInt 1), (''b'', JInt 2), (''c'', JInt 3)],
              Inr (JObj [(''a'', JInt 1), (''b'', JInt 2)]))"
proof -
  have f: "map trim (splitOn CHR '','' ''a,b'') = [''a'', ''b'']" by code_simp
  have s: "splitOn CHR ''.'' ''a'' = [''a'']" "splitOn CHR ''.'' ''b'' = [''b'']" by code_simp+
  have m: "arrMatch ''a'' = None" "arrMatch ''b'' = None" by code_simp+
  have o: "objSet [] ''a'' (JInt 1) = [(''a'', JInt 1)]"
    "objSet [(''a'', JInt 1)] ''b'' (JInt 2) = [(''a'', JInt 1), (''b'', JInt 2)]" by code_simp+
  have v: "getNestedValue h (JObj [(''a'', JInt 1), (''b'', JInt 2), (''c'', JInt 3)]) ''a''
             = Inr (JInt 1)"
    "getNestedValue h (JObj [(''a'', JInt 1), (''b'', JInt 2), (''c'', JInt 3)]) ''b''
             = Inr (JInt 2)"
    by (simp_all only: getNestedValue_def s) (simp_all add: m bindE_def)
  have g: "pickFields h (JObj [(''a'', JInt 1), (''b'', JInt 2), (''c'', JInt 3)]) [''a'', ''b''] []
             = Inr (JObj [(''a'', JInt 1), (''b'', JInt 2)])"
    by (simp add: v o bindE_def)
  show ?thesis
    by (simp only: executeWorkflowStep.simps assms stepType.case jsval.case Let_def f g)
qed

lemma rename_ax_second:
  assumes "step_type r = KRename" "config r = ''a:x''"
  shows "executeWorkflowStep h (JObj [(''a'', JInt 1), (''b'', JInt 2)]) r
           = (JObj [(''a'', JInt 1), (''b'', JInt 2)],
              Inr (JObj [(''x'', JInt 1), (''b'', JInt 2)]))"
proof -
  have g: "renameFields (renameMappings ''a:x'') (JObj [(''a'', JInt 1), (''b'', JInt 2)])
             = Inr (JObj [(''x'', JInt 1), (''b'', JInt 2)])" by code_simp
  show ?thesis
    by (simp only: executeWorkflowStep.simps assms stepType.case jsval.case Let_def g)
qed

lemma rename_ax_first:
  assumes "step_type r = KRename" "config r = ''a:x''"
  shows "executeWorkflowStep h (JObj [(''a'', JInt 1), (''b'', JInt 2), (''c'', JInt 3)]) r
           = (JObj [(''a'', JInt 1), (''b'', JInt 2), (''c'', JInt 3)],
              Inr (JObj [(''x'', JInt 1), (''b'', JInt 2), (''c'', JInt 3)]))"
proof -
  have g: "renameFields (renameMappings ''a:x'')
             (JObj [(''a'', JInt 1), (''b'', JInt 2), (''c'', JInt 3)])
             = Inr (JObj [(''x'', JInt 1), (''b'', JInt 2), (''c'', JInt 3)])" by code_simp
  show ?thesis
    by (simp only: executeWorkflowStep.simps assms stepType.case jsval.case Let_def g)
qed

lemma pick_ab_second:
  assumes "step_type p = KPick" "config p = ''a,b''"
  shows "executeWorkflowStep h (JObj [(''x'', JInt 1), (''b'', JInt 2), (''c'', JInt 3)]) p
           = (JObj [(''x'', JInt 1), (''b'', JInt 2), (''c'', JInt 3)],
              Inr (JObj [(''a'', JUndef), (''b'', JInt 2)]))"
proof -
  have f: "map trim (splitOn CHR '','' ''a,b'') = [''a'', ''b'']" by code_simp
  have s: "splitOn CHR ''.'' ''a'' = [''a'']" "splitOn CHR ''.'' ''b'' = [''b'']" by code_simp+
  have m: "arrMatch ''a'' = None" "arrMatch ''b'' = None" by code_simp+
  have o: "objSet [] ''a'' JUndef = [(''a'', JUndef)]"
    "objSet [(''a'', JUndef)] ''b'' (JInt 2) = [(''a'', JUndef), (''b'', JInt 2)]" by code_simp+
  have i: "objectInherited ''a'' = JUndef" by code_simp
  have v: "getNestedValue h (JObj [(''x'', JInt 1), (''b'', JInt 2), (''c'', JInt 3)]) ''a''
             = Inr JUndef"
    "getNestedValue h (JObj [(''x'', JInt 1), (''b'', JInt 2), (''c'', JInt 3)]) ''b''
             = Inr (JInt 2)"
    by (simp_all only: getNestedValue_def s) (simp_all add: m i bindE_def)
  have g: "pickFields h (JObj [(''x'', JInt 1), (''b'', JInt 2), (''c'', JInt 3)]) [''a'', ''b''] []
             = Inr (JObj [(''a'', JUndef), (''b'', JInt 2)])"
    by (simp add: v o bindE_def)
  show ?thesis
    by (simp only: executeWorkflowStep.simps assms stepType.case jsval.case Let_def f g)
qed

text \<open>
  Claim C5. On an input that parses to \<open>{"a":1,"b":2,"c":3}\<close>, the workflow of an
  enabled pick step \<open>a,b\<close> followed by an enabled rename step \<open>a:x\<close> reports as
  \<open>finalOutput\<close> the serialized object \<open>{"x":1,"b":2}\<close>; with the two steps swapped
  it reports the serialized object \<open>{"b":2}\<close> (the picked \<open>a\<close> is \<open>undefined\<close> and
  is left out of the text). The two outputs differ: the order of the steps is observable.
\<close>

theorem workflow_pick_rename_order:
  assumes parse: "JSON_parse h input = Inr (JObj [(''a'', JInt 1), (''b'', JInt 2), (''c'', JInt 3)])"
    and p: "step_type p = KPick" "config p = ''a,b''" "enabled p"
    and r: "step_type r = KRename" "config r = ''a:x''" "enabled r"
  shows "\<exists>res res'.
           handleRunWorkflow h input [p, r] = Inr res
           \<and> finalOutput res = JSON_stringify2 (JObj [(''x'', JInt 1), (''b'', JInt 2)])
           \<and> finalOutput res = Some ''{\<newline>  \"x\": 1,\<newline>  \"b\": 2\<newline>}''
           \<and> handleRunWorkflow h input [r, p] = Inr res'
           \<and> finalOutput res' = JSON_stringify2 (JObj [(''b'', JInt 2)])
           \<and> finalOutput res' = Some ''{\<newline>  \"b\": 2\<newline>}''
           \<and> finalOutput res \<noteq> finalOutput res'"
proof -
  have s1: "JSON_stringify2 (JObj [(''x'', JInt 1), (''b'', JInt 2)])
              = Some ''{\<newline>  \"x\": 1,\<newline>  \"b\": 2\<newline>}''" by code_simp
  have s2: "JSON_stringify2 (JObj [(''a'', JUndef), (''b'', JInt 2)])
              = Some ''{\<newline>  \"b\": 2\<newline>}''" by code_simp
  have s3: "JSON_stringify2 (JObj [(''b'', JInt 2)])
              = Some ''{\<newline>  \"b\": 2\<newline>}''" by code_simp
  have a: "runSteps h (JObj [(''a'', JInt 1), (''b'', JInt 2), (''c'', JInt 3)]) [p, r] []
             = Inr (JObj [(''x'', JInt 1), (''b'', JInt 2)],
                [\<lparr>stepId = step_id p,
                  stepOutput = JSON_stringify2 (JObj [(''a'', JInt 1), (''b'', JInt 2)]),
                  stepError = None\<rparr>,
                 \<lparr>stepId = step_id r,
                  stepOutput = JSON_stringify2 (JObj [(''x'', JInt 1), (''b'', JInt 2)]),
                  stepError = None\<rparr>])"
    using p r by (simp add: pick_ab_first rename_ax_second)
  have b: "runSteps h (JObj [(''a'', JInt 1), (''b'', JInt 2), (''c'', JInt 3)]) [r, p] []
             = Inr (JObj [(''a'', JUndef), (''b'', JInt 2)],
                [\<lparr>stepId = step_id r,
                  stepOutput = JSON_stringify2
                    (JObj [(''x'', JInt 1), (''b'', JInt 2), (''c'', JInt 3)]),
                  stepError = None\<rparr>,
                 \<lparr>stepId = step_id p,
                  stepOutput = JSON_stringify2 (JObj [(''a'', JUndef), (''b'', JInt 2)]),
                  stepError = None\<rparr>])"
    using p r by (simp add: pick_ab_second rename_ax_first)
  show ?thesis
    using parse
    by (simp add: handleRunWorkflow_def bindE_def a b s1 s2 s3 del: runSteps.simps)
qed

theorem workflow_pick_rename_order_witness:
  "\<exists>res res'.
     handleRunWorkflow exampleHost ''{\"a\":1,\"b\":2,\"c\":3}''
       [exampleStep KPick ''a,b'', exampleStep KRename ''a:x''] = Inr res
     \<and> finalOutput res = JSON_stringify2 (JObj [(''x'', JInt 1), (''b'', JInt 2)])
     \<and> finalOutput res = Some ''{\<newline>  \"x\": 1,\<newline>  \"b\": 2\<newline>}''
     \<and> handleRunWorkflow exampleHost ''{\"a\":1,\"b\":2,\"c\":3}''
         [exampleStep KRename ''a:x'', exampleStep KPick ''a,b''] = Inr res'
     \<and> finalOutput res' = JSON_stringify2 (JObj [(''b'', JInt 2)])
     \<and> finalOutput res' = Some ''{\<newline>  \"b\": 2\<newline>}''
     \<and> finalOutput res \<noteq> finalOutput res'"
proof -
  have h1: "JSON_parse exampleHost ''{\"a\":1,\"b\":2,\"c\":3}''
              = Inr (JObj [(''a'', JInt 1), (''b'', JInt 2), (''c'', JInt 3)])"
    by code_simp
  have h2: "step_type (exampleStep KPick ''a,b'') = KPick"
    "config (exampleStep KPick ''a,b'') = ''a,b''" "enabled (exampleStep KPick ''a,b'')"
    by (simp_all add: exampleStep_def)
  have h3: "step_type (exampleStep KRename ''a:x'') = KRename"
    "config (exampleStep KRename ''a:x'') = ''a:x''" "enabled (exampleStep KRename ''a:x'')"
    by (simp_all add: exampleStep_def)
  from workflow_pick_rename_order [OF h1 h2 h3]
  show ?thesis .
qed

lemma findOp_none:
  "\<forall>op\<in>set ops. indexOf e op = None \<Longrightarrow> findOp e ops = (e, ''=='', ''true'')"
  by (induction ops) simp_all

lemma filterE_Inr:
  "filterE f xs = Inr ys \<Longrightarrow> ys = filter (\<lambda>x. f x = Inr True) xs"
  by (induction xs arbitrary: ys) (auto split: sum.splits)

lemma filterE_Inl:
  "filterE f xs = Inl e \<Longrightarrow> \<exists>x\<in>set xs. f x = Inl e"
  by (induction xs) (auto split: sum.splits)

lemma filterE_total:
  "\<forall>x\<in>set xs. \<exists>b. f x = Inr b \<Longrightarrow> \<exists>ys. filterE f xs = Inr ys"
  by (induction xs) (auto split: sum.splits)

text \<open>
  Claim C6, as the code has it. For every array input and every filter-step text in which
  none of the operator tokens \<open>>=\<close>, \<open><=\<close>, \<open>!=\<close>, \<open>==\<close>, \<open>>\<close>, \<open><\<close>,
  \<open>contains\<close> occurs, the text is read as \<open>field == true\<close> with the whole text as
  the field. The step leaves its input as it is. When it returns, it returns, unchanged and
  in order, exactly the elements whose value at that path converts to the text
  \<open>true\<close>; it returns whenever the path resolves to a value that has a text on every
  element. When it raises, it raises what the resolution of the path or the conversion to
  a text raises on some element (the conversion of an object with an own \<open>toString\<close>
  property raises).
\<close>

theorem filter_without_operator_keeps_true:
  assumes "step_type step = KFilter"
    and "\<forall>op\<in>set filterOps. indexOf (config step) op = None"
  shows "fst (executeWorkflowStep h (JArr xs) step) = JArr xs
         \<and> (\<forall>r. snd (executeWorkflowStep h (JArr xs) step) = Inr r \<longrightarrow>
               r = JArr (filter (\<lambda>item. bindE (getNestedValue h item (config step)) (toString h)
                                          = Inr ''true'') xs))
         \<and> ((\<forall>item\<in>set xs. \<exists>t. bindE (getNestedValue h item (config step)) (toString h) = Inr t)
              \<longrightarrow> (\<exists>r. snd (executeWorkflowStep h (JArr xs) step) = Inr r))
         \<and> (\<forall>e. snd (executeWorkflowStep h (JArr xs) step) = Inl e \<longrightarrow>
               (\<exists>item\<in>set xs. bindE (getNestedValue h item (config step)) (toString h) = Inl e))"
proof -
  let ?f = "\<lambda>item. bindE (getNestedValue h item (config step))
                     (\<lambda>itemVal. filterTest h ''=='' itemVal ''true'')"
  let ?t = "\<lambda>item. bindE (getNestedValue h item (config step)) (toString h)"
  have p: "parseFilterExpression (config step) = (config step, ''=='', ''true'')"
    using assms(2) by (simp add: parseFilterExpression_def findOp_none)
  have ex: "executeWorkflowStep h (JArr xs) step
              = (JArr xs, bindE (filterE ?f xs) (\<lambda>ys. Inr (JArr ys)))"
    using assms(1) p by (simp add: executeWorkflowStep.simps)
  have fr: "?f item = Inr (t = ''true'')" if "?t item = Inr t" for item t
    using that
    by (cases "getNestedValue h item (config step)")
      (auto simp: bindE_def filterTest_def split: sum.splits)
  have fl: "?t item = Inl e" if "?f item = Inl e" for item e
    using that
    by (cases "getNestedValue h item (config step)")
      (auto simp: bindE_def filterTest_def split: sum.splits)
  have keep: "(?f item = Inr True) = (?t item = Inr ''true'')" for item
    by (cases "getNestedValue h item (config step)")
      (auto simp: bindE_def filterTest_def split: sum.splits)
  have a: "fst (executeWorkflowStep h (JArr xs) step) = JArr xs"
    by (simp add: ex)
  have b: "r = JArr (filter (\<lambda>item. ?t item = Inr ''true'') xs)"
    if "snd (executeWorkflowStep h (JArr xs) step) = Inr r" for r
  proof -
    from that obtain ys where ys: "filterE ?f xs = Inr ys" and r: "r = JArr ys"
      by (cases "filterE ?f xs") (auto simp: ex bindE_def)
    from filterE_Inr [OF ys] r show ?thesis by (simp only: keep)
  qed
  have c: "\<exists>r. snd (executeWorkflowStep h (JArr xs) step) = Inr r"
    if "\<forall>item\<in>set xs. \<exists>t. ?t item = Inr t"
  proof -
    from that have "\<forall>item\<in>set xs. \<exists>b. ?f item = Inr b"
      using fr by blast
    from filterE_total [OF this] show ?thesis by (auto simp: ex bindE_def)
  qed
  have d: "\<exists>item\<in>set xs. ?t item = Inl e"
    if "snd (executeWorkflowStep h (JArr xs) step) = Inl e" for e
  proof -
    from that have "filterE ?f xs = Inl e"
      by (cases "filterE ?f xs") (auto simp: ex bindE_def)
    from filterE_Inl [OF this] obtain item where "item \<in> set xs" "?f item = Inl e" by blast
    with fl show ?thesis by blast
  qed
  from a b c d show ?thesis by blast
qed

theorem filter_without_operator_keeps_true_witness:
  "executeWorkflowStep exampleHost
     (JArr [JObj [(''a'', JBool True)], JObj [(''a'', JInt 1)]]) (exampleStep KFilter ''a'')
   = (JArr [JObj [(''a'', JBool True)], JObj [(''a'', JInt 1)]],
      Inr (JArr [JObj [(''a'', JBool True)]]))
   \<and> snd (executeWorkflowStep exampleHost
            (JArr [JObj [(''a'', JObj [(''toString'', JInt 1)])]]) (exampleStep KFilter ''a''))
       = Inl (TypeError ''Cannot convert object to primitive value'')
   \<and> bindE (getNestedValue exampleHost (JObj [(''a'', JObj [(''toString'', JInt 1)])]) ''a'')
         (toString exampleHost)
       = Inl (TypeError ''Cannot convert object to primitive value'')"
proof -
  let ?xs = "[JObj [(''a'', JBool True)], JObj [(''a'', JInt 1)]]"
  let ?ys = "[JObj [(''a'', JObj [(''toString'', JInt 1)])]]"
  have a: "step_type (exampleStep KFilter ''a'') = KFilter" by (simp add: exampleStep_def)
  have b: "\<forall>op\<in>set filterOps. indexOf (config (exampleStep KFilter ''a'')) op = None"
    by code_simp
  have c: "bindE (getNestedValue exampleHost (JObj [(''a'', JBool True)]) ''a'')
             (toString exampleHost) = Inr ''true''"
    by code_simp
  have d: "bindE (getNestedValue exampleHost (JObj [(''a'', JInt 1)]) ''a'')
             (toString exampleHost) = Inr ''1''"
    by code_simp
  have cfg: "config (exampleStep KFilter ''a'') = ''a''" by (simp add: exampleStep_def)
  note t = filter_without_operator_keeps_true [OF a b, of exampleHost ?xs]
  have "\<forall>item\<in>set ?xs. \<exists>t. bindE (getNestedValue exampleHost item
           (config (exampleStep KFilter ''a''))) (toString exampleHost) = Inr t"
    by (simp add: cfg c d)
  with t obtain r where r: "snd (executeWorkflowStep exampleHost (JArr ?xs)
                                   (exampleStep KFilter ''a'')) = Inr r"
    by blast
  with t have "r = JArr (filter (\<lambda>item. bindE (getNestedValue exampleHost item
           (config (exampleStep KFilter ''a''))) (toString exampleHost) = Inr ''true'') ?xs)"
    by blast
  then have "r = JArr [JObj [(''a'', JBool True)]]"
    by (simp add: cfg c d)
  with r t have first: "executeWorkflowStep exampleHost (JArr ?xs) (exampleStep KFilter ''a'')
                          = (JArr ?xs, Inr (JArr [JObj [(''a'', JBool True)]]))"
    by (simp add: prod_eq_iff)
  note t' = filter_without_operator_keeps_true [OF a b, of exampleHost ?ys]
  have e: "snd (executeWorkflowStep exampleHost (JArr ?ys) (exampleStep KFilter ''a''))
             = Inl (TypeError ''Cannot convert object to primitive value'')"
    by code_simp
  with t' have "\<exists>item\<in>set ?ys. bindE (getNestedValue exampleHost item
           (config (exampleStep KFilter ''a''))) (toString exampleHost)
             = Inl (TypeError ''Cannot convert object to primitive value'')"
    by blast
  then have "bindE (getNestedValue exampleHost (JObj [(''a'', JObj [(''toString'', JInt 1)])]) ''a'')
               (toString exampleHost)
             = Inl (TypeError ''Cannot convert object to primitive value'')"
    by (simp add: cfg)
  with first e show ?thesis by blast
qed

text \<open>
  Claim C6, as stated, fails: the text \<open>a\<close> holds none of the operator tokens, and the
  filter step drops the only element of \<open>[{"a":1}]\<close>.
\<close>

theorem filter_without_operator_counterexample:
  "indexOf ''a'' ''>='' = None \<and> indexOf ''a'' ''<='' = None \<and> indexOf ''a'' ''!='' = None
   \<and> indexOf ''a'' ''=='' = None \<and> indexOf ''a'' ''>'' = None \<and> indexOf ''a'' ''<'' = None
   \<and> indexOf ''a'' ''contains'' = None
   \<and> executeWorkflowStep exampleHost (JArr [JObj [(''a'', JInt 1)]]) (exampleStep KFilter ''a'')
        = (JArr [JObj [(''a'', JInt 1)]], Inr (JArr []))"
  by code_simp

section \<open>Properties of the jq-subset interpreter\<close>

text \<open>
  Claim C1, what the code does at the claim's input. On
  \<open>[{"age":17},{"age":30},{"age":45}]\<close> the filter \<open>.[] | select(.age > 18)\<close>
  returns the empty array, whatever the host: the stage \<open>.[]\<close> is taken as the access
  of the field whose name is the empty text, which no element has, so nothing is left for
  \<open>select\<close> to keep.
\<close>

theorem executeJq_iterate_select_empty:
  "executeJq h (JArr [JObj [(''age'', JInt 17)], JObj [(''age'', JInt 30)],
                      JObj [(''age'', JInt 45)]])
     ''.[] | select(.age > 18)'' = Inr (JArr [])"
proof -
  have p: "map trim (splitOn CHR ''|'' ''.[] | select(.age > 18)'')
             = [''.[]'', ''select(.age > 18)'']"
    by code_simp
  have a: "isMapStage ''.[]'' = False" "isMapStage ''select(.age > 18)'' = False"
    by code_simp+
  have b: "jqStage h (JArr [JObj [(''age'', JInt 17)], JObj [(''age'', JInt 30)],
                            JObj [(''age'', JInt 45)]]) ''.[]'' = Inr (JArr [])"
    by (simp add: jqStage_def startsWith_def dropBrackets_def endsWith_def fieldStage_def
          isObjectLike_def bindE_def objectInherited_def objectPrototypeNames_def)
  have c: "jqStage h (JArr []) ''select(.age > 18)'' = Inr (JArr [])"
    by (simp add: jqStage_def startsWith_def endsWith_def selectStage_def bindE_def)
  show ?thesis
    by (simp only: executeJq.simps p) (simp add: a b c bindE_def)
qed

theorem executeJq_iterate_select_empty_witness:
  "executeJq exampleHost (JArr [JObj [(''age'', JInt 17)], JObj [(''age'', JInt 30)],
                                JObj [(''age'', JInt 45)]])
     ''.[] | select(.age > 18)'' = Inr (JArr [])
   \<and> JSON_stringify2 (JArr []) = Some ''[]''"
proof -
  have "JSON_stringify2 (JArr []) = Some ''[]''" by code_simp
  with executeJq_iterate_select_empty [of exampleHost] show ?thesis by simp
qed

lemma setAdd_firstOccurrences:
  "setAdd seen xs = seen @ filter (\<lambda>y. y \<notin> set seen) (firstOccurrences xs)"
proof (induction xs arbitrary: seen)
  case Nil
  show ?case by simp
next
  case (Cons x xs)
  show ?case
  proof (cases "x \<in> set seen")
    case True
    then have "filter (\<lambda>y. y \<notin> set seen) (filter (\<lambda>y. y \<noteq> x) (firstOccurrences xs))
                 = filter (\<lambda>y. y \<notin> set seen) (firstOccurrences xs)"
      by (auto intro: filter_cong)
    with True Cons.IH [of seen] show ?thesis by simp
  next
    case False
    have "filter (\<lambda>y. y \<notin> set (seen @ [x])) (firstOccurrences xs)
            = filter (\<lambda>y. y \<notin> set seen) (filter (\<lambda>y. y \<noteq> x) (firstOccurrences xs))"
      by (auto intro: filter_cong)
    with False Cons.IH [of "seen @ [x]"] show ?thesis by simp
  qed
qed

lemma newSet_firstOccurrences: "newSet xs = firstOccurrences xs"
  by (simp add: newSet_def setAdd_firstOccurrences)

lemma set_firstOccurrences: "set (firstOccurrences xs) = set xs"
  by (induction xs) auto

lemma distinct_firstOccurrences: "distinct (firstOccurrences xs)"
  by (induction xs) (auto simp: set_firstOccurrences)

lemma firstOccurrences_distinct: "distinct xs \<Longrightarrow> firstOccurrences xs = xs"
proof (induction xs)
  case Nil
  show ?case by simp
next
  case (Cons x xs)
  then have "filter (\<lambda>y. y \<noteq> x) xs = xs" by (auto intro: filter_True)
  with Cons show ?case by simp
qed

lemma firstOccurrences_map:
  "inj_on f (set xs) \<Longrightarrow> firstOccurrences (map f xs) = map f (firstOccurrences xs)"
proof (induction xs)
  case Nil
  show ?case by simp
next
  case (Cons x xs)
  then have ih: "firstOccurrences (map f xs) = map f (firstOccurrences xs)" by simp
  have "filter (\<lambda>y. y \<noteq> f x) (map f (firstOccurrences xs))
          = map f (filter (\<lambda>y. y \<noteq> x) (firstOccurrences xs))"
    unfolding filter_map comp_def
    using Cons.prems by (auto intro!: arg_cong [where f = "map f"] filter_cong
        simp: set_firstOccurrences inj_on_def)
  with ih show ?case by simp
qed

lemma firstIndex_Cons:
  "firstIndex (x # xs) y = (if y = x then 0 else Suc (firstIndex xs y))"
  by (simp add: firstIndex_def)

lemma sorted_firstOccurrences:
  "sorted_wrt (\<lambda>a b. firstIndex xs a < firstIndex xs b) (firstOccurrences xs)"
proof (induction xs)
  case Nil
  show ?case by simp
next
  case (Cons x xs)
  have "sorted_wrt (\<lambda>a b. firstIndex xs a < firstIndex xs b)
          (filter (\<lambda>y. y \<noteq> x) (firstOccurrences xs))"
    using Cons.IH by (rule sorted_wrt_filter)
  then have "sorted_wrt (\<lambda>a b. firstIndex (x # xs) a < firstIndex (x # xs) b)
          (filter (\<lambda>y. y \<noteq> x) (firstOccurrences xs))"
    by (rule sorted_wrt_mono_rel [rotated]) (auto simp: firstIndex_Cons)
  then show ?case by (auto simp: firstIndex_Cons)
qed

lemma mapE_pure: "\<forall>x\<in>set xs. f x = Inr (g x) \<Longrightarrow> mapE f xs = Inr (map g xs)"
  by (induction xs) simp_all

lemma mapE_Inr:
  "mapE f xs = Inr ys \<Longrightarrow> list_all2 (\<lambda>x y. f x = Inr y) xs ys"
  by (induction xs arbitrary: ys) (auto split: sum.splits)

lemma unique_parts: "map trim (splitOn CHR ''|'' ''unique'') = [''unique'']"
  by code_simp

lemma unique_unique_parts:
  "map trim (splitOn CHR ''|'' ''unique | unique'') = [''unique'', ''unique'']"
  by code_simp

lemma unique_not_map: "isMapStage ''unique'' = False"
  by code_simp

lemma jqStage_unique: "jqStage h (JArr xs) ''unique'' = uniqueStage h xs"
  by (simp add: jqStage_def)

lemma executeJq_unique: "executeJq h (JArr xs) ''unique'' = uniqueStage h xs"
  by (simp only: executeJq.simps unique_parts)
     (simp add: unique_not_map jqStage_unique bindE_def split: sum.splits)

lemma executeJq_unique_unique:
  "executeJq h (JArr xs) ''unique | unique''
     = bindE (uniqueStage h xs) (\<lambda>c. bindE (jqStage h c ''unique'') Inr)"
  by (simp only: executeJq.simps unique_unique_parts)
     (simp add: unique_not_map jqStage_unique bindE_def split: sum.splits)

lemma uniqueStage_fixed:
  assumes rt: "\<forall>x\<in>set xs. \<forall>y. parseKey h (JSON_stringify x) = Inr y
                 \<longrightarrow> JSON_stringify y = JSON_stringify x"
    and u: "uniqueStage h xs = Inr c"
  shows "\<exists>ys. c = JArr ys \<and> uniqueStage h ys = Inr (JArr ys)"
proof -
  let ?ks = "newSet (map JSON_stringify xs)"
  from u obtain ys where m: "mapE (parseKey h) ?ks = Inr ys" and c: "c = JArr ys"
    by (auto simp: uniqueStage_def bindE_def split: sum.splits)
  from m have l: "list_all2 (\<lambda>k y. parseKey h k = Inr y) ?ks ys" by (rule mapE_Inr)
  have "list_all2 (\<lambda>k y. JSON_stringify y = k) ?ks ys"
  proof (rule list.rel_mono_strong [OF l])
    fix k y
    assume "k \<in> set ?ks" and "y \<in> set ys" and p: "parseKey h k = Inr y"
    then obtain x where "x \<in> set xs" "k = JSON_stringify x"
      by (auto simp: newSet_firstOccurrences set_firstOccurrences)
    with rt p show "JSON_stringify y = k" by auto
  qed
  then have "map JSON_stringify ys = ?ks"
    by (induction rule: list_all2_induct) simp_all
  moreover have "distinct ?ks"
    by (simp add: newSet_firstOccurrences distinct_firstOccurrences)
  ultimately have "newSet (map JSON_stringify ys) = ?ks"
    by (simp add: newSet_firstOccurrences firstOccurrences_distinct)
  with m have "uniqueStage h ys = Inr (JArr ys)"
    by (simp add: uniqueStage_def bindE_def)
  with c show ?thesis by blast
qed

text \<open>
  Claim C9. For every array \<open>xs\<close>, the \<open>unique\<close> stage is idempotent: evaluating
  \<open>unique\<close> on the result of \<open>unique\<close> gives the result of \<open>unique\<close> (the same
  array, or the same error when the first \<open>unique\<close> raises). The host's JSON reader
  is taken to be faithful to the JSON writer on the elements: a value read back from the
  text of an element has that same text.
\<close>

theorem jq_unique_idempotent:
  assumes "\<forall>x\<in>set xs. \<forall>y. parseKey h (JSON_stringify x) = Inr y
             \<longrightarrow> JSON_stringify y = JSON_stringify x"
  shows "executeJq h (JArr xs) ''unique | unique'' = executeJq h (JArr xs) ''unique''"
proof (cases "uniqueStage h xs")
  case (Inl e)
  then show ?thesis
    by (simp add: executeJq_unique executeJq_unique_unique bindE_def)
next
  case (Inr c)
  from uniqueStage_fixed [OF assms Inr] obtain ys
    where "c = JArr ys" "uniqueStage h ys = Inr (JArr ys)" by blast
  with Inr show ?thesis
    by (simp add: executeJq_unique executeJq_unique_unique bindE_def jqStage_unique)
qed

lemma example_round_trip:
  "JSON_stringify (JInt 1) = Some ''1''" "JSON_stringify (JInt 2) = Some ''2''"
  "parseKey exampleHost (Some ''1'') = Inr (JInt 1)"
  "parseKey exampleHost (Some ''2'') = Inr (JInt 2)"
  by code_simp+

theorem jq_unique_idempotent_witness:
  "executeJq exampleHost (JArr [JInt 2, JInt 1, JInt 2]) ''unique | unique''
     = executeJq exampleHost (JArr [JInt 2, JInt 1, JInt 2]) ''unique''"
proof -
  have "\<forall>x\<in>set [JInt 2, JInt 1, JInt 2].
          \<forall>y. parseKey exampleHost (JSON_stringify x) = Inr y
            \<longrightarrow> JSON_stringify y = JSON_stringify x"
    by (auto simp: example_round_trip)
  from jq_unique_idempotent [OF this] show ?thesis .
qed

text \<open>
  Claim C10, as the code has it. For every array \<open>xs\<close>, the \<open>unique\<close> stage takes
  the JSON texts of the elements, keeps the distinct texts in the order of each text's
  first occurrence, and reads each text back: it does not sort, and it raises when a text
  cannot be read back (an \<open>undefined\<close> element has no text). For every array \<open>xs\<close>
  of values that the JSON reader gives back from their own text, the stage returns the
  distinct elements of \<open>xs\<close> in the order of each element's first occurrence in
  \<open>xs\<close>: the result has no duplicates, has the elements of \<open>xs\<close>, and lists them by
  increasing position of first occurrence. From \<open>[2,1,2]\<close> the order is \<open>[2,1]\<close>.
\<close>

theorem jq_unique_first_occurrences:
  "executeJq h (JArr xs) ''unique''
     = bindE (mapE (parseKey h) (firstOccurrences (map JSON_stringify xs)))
         (\<lambda>ys. Inr (JArr ys))
   \<and> ((\<forall>x\<in>set xs. parseKey h (JSON_stringify x) = Inr x)
        \<longrightarrow> executeJq h (JArr xs) ''unique'' = Inr (JArr (firstOccurrences xs)))
   \<and> distinct (firstOccurrences xs)
   \<and> set (firstOccurrences xs) = set xs
   \<and> sorted_wrt (\<lambda>a b. firstIndex xs a < firstIndex xs b) (firstOccurrences xs)
   \<and> firstOccurrences [JInt 2, JInt 1, JInt 2] = [JInt 2, JInt 1]"
proof -
  have g: "executeJq h (JArr xs) ''unique''
     = bindE (mapE (parseKey h) (firstOccurrences (map JSON_stringify xs)))
         (\<lambda>ys. Inr (JArr ys))"
    by (simp add: executeJq_unique uniqueStage_def newSet_firstOccurrences)
  have "executeJq h (JArr xs) ''unique'' = Inr (JArr (firstOccurrences xs))"
    if assms: "\<forall>x\<in>set xs. parseKey h (JSON_stringify x) = Inr x"
  proof -
  have "inj_on JSON_stringify (set xs)"
  proof (rule inj_onI)
    fix x y
    assume "x \<in> set xs" "y \<in> set xs" "JSON_stringify x = JSON_stringify y"
    with assms have "Inr x = (Inr y :: error + jsval)" by metis
    then show "x = y" by simp
  qed
  then have k: "newSet (map JSON_stringify xs) = map JSON_stringify (firstOccurrences xs)"
    by (simp add: newSet_firstOccurrences firstOccurrences_map)
  have "mapE (parseKey h) (map JSON_stringify (firstOccurrences xs))
          = Inr (map (\<lambda>k. case parseKey h k of Inr v \<Rightarrow> v | Inl e \<Rightarrow> JUndef)
                  (map JSON_stringify (firstOccurrences xs)))"
    by (rule mapE_pure) (use assms in \<open>auto simp: set_firstOccurrences\<close>)
  moreover have "map (\<lambda>k. case parseKey h k of Inr v \<Rightarrow> v | Inl e \<Rightarrow> JUndef)
                   (map JSON_stringify (firstOccurrences xs))
                  = firstOccurrences xs"
    using assms by (auto simp: set_firstOccurrences intro: map_idI)
  ultimately have "uniqueStage h xs = Inr (JArr (firstOccurrences xs))"
    by (simp add: uniqueStage_def k bindE_def)
  then show ?thesis
    by (simp add: executeJq_unique)
  qed
  with g show ?thesis
    by (simp add: distinct_firstOccurrences set_firstOccurrences sorted_firstOccurrences)
qed

theorem jq_unique_first_occurrences_witness:
  "executeJq exampleHost (JArr [JInt 2, JInt 1, JInt 2]) ''unique''
     = Inr (JArr [JInt 2, JInt 1])"
proof -
  have "\<forall>x\<in>set [JInt 2, JInt 1, JInt 2]. parseKey exampleHost (JSON_stringify x) = Inr x"
    by (simp add: example_round_trip)
  moreover note t = jq_unique_first_occurrences [of exampleHost "[JInt 2, JInt 1, JInt 2]"]
  ultimately have "executeJq exampleHost (JArr [JInt 2, JInt 1, JInt 2]) ''unique''
                     = Inr (JArr (firstOccurrences [JInt 2, JInt 1, JInt 2]))"
    by blast
  moreover from t have "firstOccurrences [JInt 2, JInt 1, JInt 2] = [JInt 2, JInt 1]"
    by blast
  ultimately show ?thesis by (simp only:)
qed

text \<open>
  Claim C10, as stated, fails. On \<open>[{"b":1}]\<close> the stage \<open>map(.a)\<close> leaves the
  array whose one element is \<open>undefined\<close>; on that array \<open>unique\<close> does not return
  its distinct elements: it raises, because \<open>undefined\<close> has no JSON text to read back.
\<close>

theorem jq_unique_undefined_counterexample:
  "executeJq exampleHost (JArr [JObj [(''b'', JInt 1)]]) ''map(.a)'' = Inr (JArr [JUndef])
   \<and> firstOccurrences [JUndef] = [JUndef]
   \<and> executeJq exampleHost (JArr [JUndef]) ''unique'' = Inl (SyntaxError ''Unexpected token'')
   \<and> executeJq exampleHost (JArr [JObj [(''b'', JInt 1)]]) ''map(.a) | unique''
       = Inl (SyntaxError ''Unexpected token'')"
  by code_simp

section \<open>Properties of the JSONata-subset interpreter\<close>

text \<open>
  Claim C7, what the code does. The count form is recognized only as the literal texts
  \<open>$count($)\<close> and \<open>count($)\<close>, where it counts the input itself (3 for a
  three-element array). With a path, as in \<open>$count(items)\<close> on
  \<open>{"items":[1,2,3]}\<close>, the text is not recognized as an aggregate: it goes to the
  generic path navigation, which looks for a field of that name and returns
  \<open>undefined\<close>.
\<close>

theorem executeJsonata_count_path_undefined:
  "executeJsonata h (JArr [JInt 1, JInt 2, JInt 3]) ''$count($)'' = Inr (JInt 3)
   \<and> executeJsonata h (JObj [(''items'', JArr [JInt 1, JInt 2, JInt 3])]) ''$count(items)''
       = Inr JUndef
   \<and> resolveJsonataPath h (JObj [(''items'', JArr [JInt 1, JInt 2, JInt 3])]) ''items''
       = Inr (JArr [JInt 1, JInt 2, JInt 3])"
proof -
  have t: "trim ''$count($)'' = ''$count($)''" "trim ''$count(items)'' = ''$count(items)''"
    by code_simp+
  have m: "callMatch ''$sum('' ''$count(items)'' = None"
    "callMatch ''$distinct('' ''$count(items)'' = None"
    by code_simp+
  have r: "resolveJsonataPath h (JObj [(''items'', JArr [JInt 1, JInt 2, JInt 3])])
             ''$count(items)'' = Inr JUndef"
  proof -
    have s: "filter (\<lambda>p. p \<noteq> []) (splitOn CHR ''.'' ''$count(items)'') = [''$count(items)'']"
      by code_simp
    have f: "filterMatch ''$count(items)'' = None" by code_simp
    show ?thesis
      by (simp only: resolveJsonataPath_def s)
        (simp add: f bindE_def isObjectLike_def objectInherited_def objectPrototypeNames_def)
  qed
  have r': "resolveJsonataPath h (JObj [(''items'', JArr [JInt 1, JInt 2, JInt 3])]) ''items''
             = Inr (JArr [JInt 1, JInt 2, JInt 3])"
  proof -
    have s: "filter (\<lambda>p. p \<noteq> []) (splitOn CHR ''.'' ''items'') = [''items'']"
      by code_simp
    have f: "filterMatch ''items'' = None" by code_simp
    show ?thesis
      by (simp only: resolveJsonataPath_def s) (simp add: f bindE_def isObjectLike_def)
  qed
  show ?thesis
    by (simp add: executeJsonata_def t m r r' Let_def)
qed

theorem executeJsonata_count_path_undefined_witness:
  "executeJsonata exampleHost (JObj [(''items'', JArr [JInt 1, JInt 2, JInt 3])])
     ''$count(items)'' = Inr JUndef
   \<and> JSON_stringify2 JUndef = None"
proof -
  have "JSON_stringify2 JUndef = None" by code_simp
  with executeJsonata_count_path_undefined [of exampleHost] show ?thesis by simp
qed

section \<open>Properties of the Mongo-query-subset matcher\<close>

lemma convertible_toString:
  "convertible v \<Longrightarrow> \<exists>t. toString h v = Inr t"
  "list_all convertible xs \<Longrightarrow> \<exists>t. joinElems h xs = Inr t"
proof (induction h v and h xs rule: toString_joinElems.induct)
  case (7 h fs)
  then show ?case by (simp add: bindE_def)
next
  case (10 h x xs)
  then obtain t where t: "(if x = JUndef \<or> x = JNull then Inr [] else toString h x) = Inr t"
    by (cases "x = JUndef \<or> x = JNull") auto
  show ?case
  proof (cases "xs = []")
    case True
    with t show ?thesis by (simp add: bindE_def)
  next
    case False
    with 10 t obtain r where "joinElems h xs = Inr r" by auto
    with t False show ?thesis by (simp add: bindE_def)
  qed
qed simp_all

lemma convertible_toNumber: "convertible v \<Longrightarrow> \<exists>n. toNumber h v = Inr n"
proof (cases v)
  case (JArr xs)
  assume "convertible v"
  with JArr convertible_toString(1) [of v h] show ?thesis by (auto simp: bindE_def)
next
  case (JObj fs)
  assume c: "convertible v"
  show ?thesis
  proof (cases "map_of fs ''valueOf''")
    case None
    with c JObj show ?thesis by (simp add: bindE_def)
  next
    case (Some m)
    with c JObj have "tryMethod h (JObj fs) m = Inr None"
      by (cases m) (simp_all add: tryMethod_def isHost_def)
    with c JObj Some show ?thesis by (simp add: bindE_def)
  qed
qed simp_all

lemma opTest_safe:
  assumes "safeOp h fieldVal (op, opVal)"
  shows "\<exists>b. opTest h fieldVal op opVal = Inr b"
proof -
  consider (cmp) "op = ''$gt'' \<or> op = ''$gte'' \<or> op = ''$lt'' \<or> op = ''$lte''"
    | (re) "op = ''$regex''"
    | (other) "\<not> (op = ''$gt'' \<or> op = ''$gte'' \<or> op = ''$lt'' \<or> op = ''$lte'')" "op \<noteq> ''$regex''"
    by blast
  then show ?thesis
  proof cases
    case cmp
    with assms have "convertible fieldVal" "convertible opVal" by (auto simp: safeOp_def)
    then obtain a b where "toNumber h fieldVal = Inr a" "toNumber h opVal = Inr b"
      using convertible_toNumber by blast
    with cmp show ?thesis by (auto simp: opTest_def compareNumbers_def bindE_def)
  next
    case re
    with assms have f: "convertible fieldVal"
      and p: "case toString h opVal of Inr p \<Rightarrow> \<not> isl (RegExp_new h p) | Inl e \<Rightarrow> False"
      by (simp_all add: safeOp_def)
    from p obtain pat where pat: "toString h opVal = Inr pat" "\<not> isl (RegExp_new h pat)"
      by (cases "toString h opVal") auto
    then obtain r where r: "RegExp_new h pat = Inr r"
      by (cases "RegExp_new h pat") auto
    from f obtain t where "toString h fieldVal = Inr t"
      using convertible_toString(1) by blast
    with re pat r show ?thesis by (simp add: opTest_def bindE_def)
  next
    case other
    then show ?thesis by (auto simp: opTest_def)
  qed
qed

lemma opsLoop_safe:
  "list_all (safeOp h fieldVal) ops \<Longrightarrow> \<exists>b. opsLoop h fieldVal ops = Inr b"
proof (induction ops)
  case Nil
  show ?case by auto
next
  case (Cons a ops)
  obtain op opVal where a: "a = (op, opVal)" by (cases a)
  from Cons.prems a have r: "safeOp h fieldVal (op, opVal)"
    and rest: "list_all (safeOp h fieldVal) ops" by simp_all
  from opTest_safe [OF r] obtain b where b: "opTest h fieldVal op opVal = Inr b" by blast
  from Cons.IH [OF rest] obtain b' where "opsLoop h fieldVal ops = Inr b'" by blast
  with a b show ?case by (auto simp: bindE_def)
qed

lemma fieldMatches_safe:
  assumes "safeField h item (key, condition)"
  shows "\<exists>b. fieldMatches h item key condition = Inr b"
proof -
  from assms obtain fv where fv: "getProp h item key = Inr fv"
    by (cases "getProp h item key") (auto simp: safeField_def)
  show ?thesis
  proof (cases condition)
    case (JObj ops)
    with assms fv have "list_all (safeOp h fv) ops" by (simp add: safeField_def)
    from opsLoop_safe [OF this] JObj fv show ?thesis
      by (simp add: fieldMatches_def bindE_def isObjectLike_def isArray_def)
  next
    case (JHost n c j)
    with fv show ?thesis
      by (auto simp: fieldMatches_def bindE_def isObjectLike_def isArray_def)
  qed (use fv in \<open>simp_all add: fieldMatches_def bindE_def isObjectLike_def isArray_def\<close>)
qed

lemma indexEntries_safe:
  "list_all (safeField h item) es \<Longrightarrow> \<exists>b. indexEntries h item es = Inr b"
proof (induction es)
  case Nil
  show ?case by auto
next
  case (Cons a es)
  obtain key condition where a: "a = (key, condition)" by (cases a)
  from Cons.prems a have c: "safeField h item (key, condition)"
    and rest: "list_all (safeField h item) es" by simp_all
  from fieldMatches_safe [OF c] obtain b where "fieldMatches h item key condition = Inr b"
    by blast
  moreover from Cons.IH [OF rest] obtain b' where "indexEntries h item es = Inr b'" by blast
  ultimately show ?case using a by (auto simp: bindE_def)
qed

lemma matchesMongo_safe:
  "isObjectLike item \<longrightarrow> safeQuery h item query \<Longrightarrow> \<exists>b. matchesMongo h item query = Inr b"
  "safeEntries h item fs \<Longrightarrow> \<exists>b. matchEntries h item fs = Inr b"
  "isObjectLike item \<longrightarrow> safeQueries h item cs \<Longrightarrow> \<exists>b. everyMongo h item cs = Inr b"
  "isObjectLike item \<longrightarrow> safeQueries h item cs \<Longrightarrow> \<exists>b. someMongo h item cs = Inr b"
proof (induction h item query and h item fs and h item cs and h item cs
       rule: matchesMongo_matchEntries_everyMongo_someMongo.induct)
  case (1 h item fs)
  then show ?case by auto
next
  case (2 h item)
  then show ?case by auto
next
  case (3 h item)
  then show ?case by auto
next
  case (4 h item b)
  then show ?case by (auto simp: bindE_def)
next
  case (5 h item n)
  then show ?case by (auto simp: bindE_def)
next
  case (6 h item s)
  show ?case
  proof (cases "isObjectLike item")
    case True
    with 6 have "list_all (safeField h item)
                   (zip (map showNat [0..<length s]) (map (\<lambda>c. JStr [c]) s))"
      by simp
    from indexEntries_safe [OF this] show ?thesis using True by (auto simp: bindE_def)
  qed auto
next
  case (7 h item xs)
  show ?case
  proof (cases "isObjectLike item")
    case True
    with 7 have "list_all (safeField h item) (zip (map showNat [0..<length xs]) xs)" by simp
    from indexEntries_safe [OF this] show ?thesis using True by (auto simp: bindE_def)
  qed auto
next
  case (8 h item n c j)
  then show ?case by (auto simp: bindE_def)
next
  case (9 h item)
  show ?case by auto
next
  case (10 h item key condition rest)
  show ?case
  proof (cases "key = ''$and''")
    case True
    with 10 show ?thesis by (cases condition) auto
  next
    case na: False
    show ?thesis
    proof (cases "key = ''$or''")
      case True
      with na 10 show ?thesis by (cases condition) auto
    next
      case no: False
      show ?thesis
      proof (cases "key = ''$not''")
        case True
        with na no 10 obtain b where "matchesMongo h item condition = Inr b" by auto
        with na no True show ?thesis by (auto simp: bindE_def)
      next
        case nn: False
        with na no 10 have c: "safeField h item (key, condition)"
          and r: "safeEntries h item rest" by simp_all
        from fieldMatches_safe [OF c] obtain b
          where b: "fieldMatches h item key condition = Inr b" by blast
        from 10 na no nn r obtain b' where "matchEntries h item rest = Inr b'" by auto
        with b na no nn show ?thesis by (auto simp: bindE_def)
      qed
    qed
  qed
next
  case (11 h item)
  show ?case by auto
next
  case (12 h item c cs)
  show ?case
  proof (cases "isObjectLike item")
    case False
    have "matchesMongo h item c = Inr False"
      using False by (cases c) simp_all
    then show ?thesis by (auto simp: bindE_def)
  next
    case True
    with 12 obtain b where b: "matchesMongo h item c = Inr b" by auto
    show ?thesis
    proof (cases b)
      case t: True
      with 12 True b obtain b' where "everyMongo h item cs = Inr b'" by auto
      with b t show ?thesis by (auto simp: bindE_def)
    next
      case False
      with b show ?thesis by (auto simp: bindE_def)
    qed
  qed
next
  case (13 h item)
  show ?case by auto
next
  case (14 h item c cs)
  show ?case
  proof (cases "isObjectLike item")
    case False
    have m: "matchesMongo h item q = Inr False" for q
      using False by (cases q) simp_all
    have "\<exists>b. someMongo h item cs' = Inr b" for cs'
      by (induction cs') (auto simp: m bindE_def)
    with m show ?thesis by (auto simp: bindE_def)
  next
    case True
    with 14 obtain b where b: "matchesMongo h item c = Inr b" by auto
    show ?thesis
    proof (cases b)
      case False
      with 14 True b obtain b' where "someMongo h item cs = Inr b'" by auto
      with b False show ?thesis by (auto simp: bindE_def)
    next
      case t: True
      with b show ?thesis by (auto simp: bindE_def)
    qed
  qed
qed

lemma mongoScan_safe:
  assumes "\<forall>x\<in>set xs. isObjectLike x \<longrightarrow> safeQuery h x query"
  shows "\<exists>v. mongoScan h xs query = Inr v"
proof -
  from assms have "\<forall>x\<in>set xs. \<exists>b. matchesMongo h x query = Inr b"
    using matchesMongo_safe(1) by blast
  from filterE_total [OF this] show ?thesis by (auto simp: mongoScan_def bindE_def)
qed

lemma mongoBody_safe:
  assumes "JSON_parse h queryStr = Inr query"
    and "list_all (\<lambda>item. isObjectLike item \<longrightarrow> safeQuery h item query) (scanned data)"
  shows "\<exists>v. mongoBody h data queryStr = Inr v"
proof (cases data)
  case (JArr xs)
  with assms(2) have "\<forall>x\<in>set xs. isObjectLike x \<longrightarrow> safeQuery h x query"
    by (simp add: scanned_def list_all_iff)
  from mongoScan_safe [OF this] JArr assms(1) show ?thesis
    by (simp add: mongoBody_def bindE_def)
next
  case (JObj fs)
  show ?thesis
  proof (cases "filter isArray (map snd fs)")
    case Nil
    with assms(2) JObj have "isObjectLike data \<longrightarrow> safeQuery h data query"
      by (simp add: scanned_def)
    from matchesMongo_safe(1) [OF this] obtain b where "matchesMongo h data query = Inr b"
      by blast
    with assms(1) JObj Nil show ?thesis
      by (simp add: mongoBody_def bindE_def isObjectLike_def objectValues_def)
  next
    case (Cons a others)
    then have "a \<in> set (filter isArray (map snd fs))" by simp
    then have "isArray a" by simp
    then obtain xs where a: "a = JArr xs" by (cases a) (simp_all add: isArray_def)
    with assms(2) JObj Cons have "\<forall>x\<in>set xs. isObjectLike x \<longrightarrow> safeQuery h x query"
      by (simp add: scanned_def list_all_iff)
    from mongoScan_safe [OF this] a assms(1) JObj Cons show ?thesis
      by (simp add: mongoBody_def bindE_def isObjectLike_def objectValues_def)
  qed
next
  case (JHost n c j)
  show ?thesis
  proof (cases c)
    case True
    with JHost assms(1) show ?thesis by (simp add: mongoBody_def bindE_def isObjectLike_def)
  next
    case False
    with assms(2) JHost have "isObjectLike data \<longrightarrow> safeQuery h data query"
      by (simp add: scanned_def)
    from matchesMongo_safe(1) [OF this] obtain b where "matchesMongo h data query = Inr b"
      by blast
    with assms(1) JHost False show ?thesis
      by (simp add: mongoBody_def bindE_def isObjectLike_def objectValues_def)
  qed
qed (use assms in \<open>simp_all add: mongoBody_def bindE_def isObjectLike_def\<close>)

text \<open>
  Claim C8, as the code has it. If the query text is not valid JSON, evaluation raises the
  query error before any document is matched: the error is the same whatever the data, and
  the request answers with an empty result and that error. If the query text is valid
  JSON, the scan of the documents can still raise, document by document, and what it
  raises is reported as the same query error. It raises on none of the documents scanned
  when, for each of them that is an object or an array, the query holds no \<open>null\<close>
  where a query document is expected, compares with \<open>$gt\<close>, \<open>$gte\<close>, \<open>$lt\<close>,
  \<open>$lte\<close> only values that can be converted (no object with an own \<open>toString\<close>
  property, no inherited function), and applies \<open>$regex\<close> only with a pattern that the
  host accepts to such a value. Every error of the evaluation is the query error that
  carries the text of what the parse or the scan raised, unless that has no text.
\<close>

theorem mongo_query_errors:
  "(JSON_parse h queryStr = Inl e \<and> errorToString h e = Inr t
      \<longrightarrow> executeMongodb h data queryStr = Inl (Error (''Invalid MongoDB query: '' @ t)))
   \<and> (JSON_parse h queryStr = Inr query
        \<and> list_all (\<lambda>item. isObjectLike item \<longrightarrow> safeQuery h item query) (scanned data)
      \<longrightarrow> (\<exists>v. executeMongodb h data queryStr = Inr v))
   \<and> (executeMongodb h data queryStr = Inl err
      \<longrightarrow> (\<exists>cause. mongoBody h data queryStr = Inl cause
                   \<and> (errorToString h cause = Inl err
                        \<or> (\<exists>t'. errorToString h cause = Inr t'
                                  \<and> err = Error (''Invalid MongoDB query: '' @ t')))))
   \<and> (JSON_parse h jsonStr = Inr data \<and> JSON_parse h queryStr = Inl e
        \<and> errorToString h e = Inr t
      \<longrightarrow> handleQuery h jsonStr queryStr Mongodb
            = Inr \<lparr>resultText = Some [],
                   errorText = Some (''Error: Invalid MongoDB query: '' @ t)\<rparr>)"
proof -
  have a: "JSON_parse h queryStr = Inl e \<and> errorToString h e = Inr t
      \<longrightarrow> executeMongodb h data queryStr = Inl (Error (''Invalid MongoDB query: '' @ t))"
    by (simp add: executeMongodb_def mongoBody_def bindE_def)
  have b: "JSON_parse h queryStr = Inr query
        \<and> list_all (\<lambda>item. isObjectLike item \<longrightarrow> safeQuery h item query) (scanned data)
      \<longrightarrow> (\<exists>v. executeMongodb h data queryStr = Inr v)"
    using mongoBody_safe [of h queryStr query data] by (auto simp: executeMongodb_def)
  have c: "executeMongodb h data queryStr = Inl err
      \<longrightarrow> (\<exists>cause. mongoBody h data queryStr = Inl cause
                   \<and> (errorToString h cause = Inl err
                        \<or> (\<exists>t'. errorToString h cause = Inr t'
                                  \<and> err = Error (''Invalid MongoDB query: '' @ t'))))"
    by (auto simp: executeMongodb_def bindE_def split: sum.splits)
  have d: "JSON_parse h jsonStr = Inr data \<and> JSON_parse h queryStr = Inl e
        \<and> errorToString h e = Inr t
      \<longrightarrow> handleQuery h jsonStr queryStr Mongodb
            = Inr \<lparr>resultText = Some [],
                   errorText = Some (''Error: Invalid MongoDB query: '' @ t)\<rparr>"
    using a by (auto simp: handleQuery_def bindE_def errorLine_def)
  from a b c d show ?thesis by blast
qed

theorem mongo_query_errors_witness:
  "JSON_parse exampleHost ''{age'' = Inl (SyntaxError ''Unexpected token'')
   \<and> executeMongodb exampleHost (JArr [JObj [(''age'', JInt 17)], JObj [(''age'', JInt 30)]]) ''{age''
       = Inl (Error ''Invalid MongoDB query: SyntaxError: Unexpected token'')
   \<and> JSON_parse exampleHost ''{\"age\":{\"$gt\":18}}''
       = Inr (JObj [(''age'', JObj [(''$gt'', JInt 18)])])
   \<and> safeQuery exampleHost (JObj [(''age'', JInt 17)]) (JObj [(''age'', JObj [(''$gt'', JInt 18)])])
   \<and> safeQuery exampleHost (JObj [(''age'', JInt 30)]) (JObj [(''age'', JObj [(''$gt'', JInt 18)])])
   \<and> (\<exists>v. executeMongodb exampleHost
              (JArr [JObj [(''age'', JInt 17)], JObj [(''age'', JInt 30)]])
              ''{\"age\":{\"$gt\":18}}'' = Inr v)
   \<and> (\<exists>cause. mongoBody exampleHost
                   (JArr [JObj [(''age'', JInt 17)], JObj [(''age'', JInt 30)]]) ''{age''
                 = Inl cause
               \<and> errorToString exampleHost cause = Inr ''SyntaxError: Unexpected token'')
   \<and> handleQuery exampleHost ''1'' ''{age'' Mongodb
       = Inr \<lparr>resultText = Some [],
              errorText = Some ''Error: Invalid MongoDB query: SyntaxError: Unexpected token''\<rparr>"
proof -
  let ?q = "JObj [(''age'', JObj [(''$gt'', JInt 18)])]"
  let ?d = "JArr [JObj [(''age'', JInt 17)], JObj [(''age'', JInt 30)]]"
  let ?err = "Error ''Invalid MongoDB query: SyntaxError: Unexpected token''"
  have h0: "JSON_parse exampleHost ''1'' = Inr (JInt 1)"
    by code_simp
  have h1: "JSON_parse exampleHost ''{age'' = Inl (SyntaxError ''Unexpected token'')"
    by code_simp
  have h1': "errorToString exampleHost (SyntaxError ''Unexpected token'')
               = Inr ''SyntaxError: Unexpected token''"
    by code_simp
  have h2: "JSON_parse exampleHost ''{\"age\":{\"$gt\":18}}'' = Inr ?q"
    by code_simp
  have h3: "safeQuery exampleHost (JObj [(''age'', JInt 17)]) ?q"
    "safeQuery exampleHost (JObj [(''age'', JInt 30)]) ?q"
    by code_simp+
  then have h4: "list_all (\<lambda>item. isObjectLike item \<longrightarrow> safeQuery exampleHost item ?q)
                   (scanned ?d)"
    by (simp add: scanned_def)
  note t1 = mongo_query_errors [where h = exampleHost and queryStr = "''{age''"
      and e = "SyntaxError ''Unexpected token''" and t = "''SyntaxError: Unexpected token''"
      and data = ?d and err = ?err]
  note t2 = mongo_query_errors [where h = exampleHost and queryStr = "''{age''"
      and e = "SyntaxError ''Unexpected token''" and t = "''SyntaxError: Unexpected token''"
      and data = "JInt 1" and jsonStr = "''1''"]
  note t3 = mongo_query_errors [where h = exampleHost and queryStr = "''{\"age\":{\"$gt\":18}}''"
      and data = ?d and query = ?q]
  from t1 h1 h1' have a: "executeMongodb exampleHost ?d ''{age'' = Inl ?err"
    by simp
  with t1 obtain cause where c: "mongoBody exampleHost ?d ''{age'' = Inl cause"
    "errorToString exampleHost cause = Inl ?err
     \<or> (\<exists>t'. errorToString exampleHost cause = Inr t'
               \<and> ?err = Error (''Invalid MongoDB query: '' @ t'))"
    by blast
  from h1 c(1) have "cause = SyntaxError ''Unexpected token''"
    by (simp add: mongoBody_def bindE_def)
  with c(1) h1' have b: "\<exists>cause. mongoBody exampleHost ?d ''{age'' = Inl cause
               \<and> errorToString exampleHost cause = Inr ''SyntaxError: Unexpected token''"
    by blast
  from t3 h2 h4 have d: "\<exists>v. executeMongodb exampleHost ?d ''{\"age\":{\"$gt\":18}}'' = Inr v"
    by blast
  from t2 h0 h1 h1' have e: "handleQuery exampleHost ''1'' ''{age'' Mongodb
       = Inr \<lparr>resultText = Some [],
              errorText = Some ''Error: Invalid MongoDB query: SyntaxError: Unexpected token''\<rparr>"
    by simp
  from h1 a h2 h3 d b e show ?thesis by blast
qed

text \<open>
  Claim C8, as stated, fails. The query text \<open>{"$not":null}\<close> is valid JSON, and the
  scan raises on the document \<open>{"age":30}\<close>, while on the document \<open>30\<close> it raises
  nothing. The query text \<open>{"age":{"$gt":18}}\<close> is valid JSON, and the scan raises on
  the document \<open>{"age":{"toString":1}}\<close>, while on the document \<open>{"age":30}\<close> it
  raises nothing: whether the scan raises depends on the documents.
\<close>

theorem mongo_scan_raises_counterexample:
  "JSON_parse exampleHost ''{\"$not\":null}'' = Inr (JObj [(''$not'', JNull)])
   \<and> executeMongodb exampleHost (JArr [JObj [(''age'', JInt 30)]]) ''{\"$not\":null}''
       = Inl (Error ''Invalid MongoDB query: TypeError: Cannot convert undefined or null to object'')
   \<and> executeMongodb exampleHost (JArr [JInt 30]) ''{\"$not\":null}'' = Inr (JArr [])
   \<and> JSON_parse exampleHost ''{\"age\":{\"$gt\":18}}''
       = Inr (JObj [(''age'', JObj [(''$gt'', JInt 18)])])
   \<and> executeMongodb exampleHost (JArr [JObj [(''age'', JObj [(''toString'', JInt 1)])]])
        ''{\"age\":{\"$gt\":18}}''
       = Inl (Error ''Invalid MongoDB query: TypeError: Cannot convert object to primitive value'')
   \<and> executeMongodb exampleHost (JArr [JObj [(''age'', JInt 30)]]) ''{\"age\":{\"$gt\":18}}''
       = Inr (JArr [JObj [(''age'', JInt 30)]])"
  by code_simp

end
